theory Spec2Isabelle
  imports Complex_Main "HOL-Library.List_Lexorder" "HOL-Library.Char_ord" "HOL-Library.Log_Nat"
begin

section \<open>JavaScript values and built-ins used by the application\<close>

text \<open>
  Two kinds of numbers occur. A time value, the difference of two time values and the
  result of a comparator are integers or NaN and never infinite: they have the type
  \<open>number\<close>, with \<open>None\<close> for NaN. A number parsed from an input or held by a stored field is
  NaN, an integer or an infinity: the type \<open>js_number\<close>. A string is a list of code units;
  a \<open>char\<close> stands for a code unit below 256.
\<close>

type_synonym number = "int option"

datatype js_number = NaN | Finite int | PosInfinity | NegInfinity

datatype js_value = JUndefined | JNumber js_number | JString string

text \<open>White space as \<open>String.prototype.trim\<close> and \<open>parseInt\<close> strip it, for code units below 256:
  TAB, LF, VT, FF, CR, SP and NBSP.\<close>

definition isWhiteSpace :: "char \<Rightarrow> bool" where
  "isWhiteSpace c \<longleftrightarrow>
     c = CHR 0x09 \<or> c = CHR 0x0A \<or> c = CHR 0x0B \<or> c = CHR 0x0C \<or> c = CHR 0x0D \<or>
     c = CHR 0x20 \<or> c = CHR 0xA0"

definition trim :: "string \<Rightarrow> string" where
  "trim s = rev (dropWhile isWhiteSpace (rev (dropWhile isWhiteSpace s)))"

text \<open>\<open>s.split(sep)\<close> for a one-character separator: the fields between the separators, at
  least one field (\<open>''''.split(sep)\<close> is \<open>['''']\<close>).\<close>

fun split_str :: "char \<Rightarrow> string \<Rightarrow> string list" where
  "split_str sep [] = [[]]"
| "split_str sep (c # cs) =
     (if c = sep then [] # split_str sep cs
      else (case split_str sep cs of
              [] \<Rightarrow> [[c]]
            | f # fs \<Rightarrow> (c # f) # fs))"

definition isDigit :: "char \<Rightarrow> bool" where
  "isDigit c \<longleftrightarrow> (48::nat) \<le> of_char c \<and> of_char c \<le> (57::nat)"

definition digitsValue :: "string \<Rightarrow> nat" where
  "digitsValue ds = foldl (\<lambda>acc c. 10 * acc + (of_char c - 48)) 0 ds"

text \<open>
  The double nearest to a natural number, ties to the even significand: the number itself
  below \<open>2^53\<close>; no double (\<open>None\<close>, the value becomes an infinity) from the midpoint between
  the largest double and \<open>2^1024\<close> on; and in between the number rounded to its 53 leading
  bits.
\<close>

definition roundToDouble :: "nat \<Rightarrow> nat option" where
  "roundToDouble m =
     (if m < 2 ^ 53 then Some m
      else if 2 ^ 1024 - 2 ^ 970 \<le> m then None
      else (let e = floorlog 2 m - 53;
                q = m div 2 ^ e;
                r = m mod 2 ^ e
            in Some ((if 2 ^ (e - 1) < r \<or> (r = 2 ^ (e - 1) \<and> odd q) then q + 1 else q) * 2 ^ e)))"

text \<open>
  \<open>parseInt(s, 10)\<close>: leading white space is skipped, then an optional sign, then the
  longest run of decimal digits is read. The result is NaN when that run is empty, and
  otherwise the double nearest to the signed value of the run, an infinity when the value
  is beyond the doubles. (The language lets an engine replace the digits after the 20th
  by zeros before rounding; the exact rounding is modelled.)
\<close>

definition isNegative :: "string \<Rightarrow> bool" where
  "isNegative s = (case dropWhile isWhiteSpace s of [] \<Rightarrow> False | c # _ \<Rightarrow> c = CHR ''-'')"

definition digitRun :: "string \<Rightarrow> string" where
  "digitRun s =
     (let t = dropWhile isWhiteSpace s;
          u = (case t of [] \<Rightarrow> [] | c # cs \<Rightarrow> if c = CHR ''-'' \<or> c = CHR ''+'' then cs else t)
      in takeWhile isDigit u)"

definition parseInt :: "string \<Rightarrow> js_number" where
  "parseInt s =
     (let ds = digitRun s
      in if ds = [] then NaN
         else (case roundToDouble (digitsValue ds) of
                 None \<Rightarrow> if isNegative s then NegInfinity else PosInfinity
               | Some d \<Rightarrow> Finite (if isNegative s then - int d else int d)))"

text \<open>\<open>parseInt(v, 10)\<close> on a stored field: the value is converted to a string first, so
  \<open>undefined\<close>, NaN and the infinities give NaN, and an integer gives itself (an integer
  prints as its digits below \<open>10^21\<close>).\<close>

definition parseIntValue :: "js_value \<Rightarrow> js_number" where
  "parseIntValue v =
     (case v of
        JUndefined \<Rightarrow> NaN
      | JNumber n \<Rightarrow> (case n of Finite k \<Rightarrow> Finite k | _ \<Rightarrow> NaN)
      | JString s \<Rightarrow> parseInt s)"

text \<open>\<open>n || d\<close> on a number: NaN and 0 are falsy.\<close>

definition numberOr :: "js_number \<Rightarrow> int \<Rightarrow> js_number" where
  "numberOr n d =
     (case n of
        NaN \<Rightarrow> Finite d
      | Finite k \<Rightarrow> if k = 0 then Finite d else Finite k
      | PosInfinity \<Rightarrow> PosInfinity
      | NegInfinity \<Rightarrow> NegInfinity)"

text \<open>\<open>Math.max(a, n)\<close> for an integer \<open>a\<close>: NaN stays NaN.\<close>

definition Math_max :: "int \<Rightarrow> js_number \<Rightarrow> js_number" where
  "Math_max a n =
     (case n of
        NaN \<Rightarrow> NaN
      | Finite k \<Rightarrow> Finite (max a k)
      | PosInfinity \<Rightarrow> PosInfinity
      | NegInfinity \<Rightarrow> Finite a)"

text \<open>\<open>s || d\<close> on an optional string: \<open>undefined\<close> and the empty string are falsy.\<close>

definition stringOr :: "string option \<Rightarrow> string \<Rightarrow> string" where
  "stringOr s d = (case s of None \<Rightarrow> d | Some t \<Rightarrow> if t = [] then d else t)"

text \<open>\<open>n <= 0\<close> on a number, and \<open>d <= n\<close> for an integer \<open>d\<close>: every comparison with NaN is
  false.\<close>

definition numberLeZero :: "js_number \<Rightarrow> bool" where
  "numberLeZero n =
     (case n of NaN \<Rightarrow> False | Finite k \<Rightarrow> k \<le> 0 | PosInfinity \<Rightarrow> False | NegInfinity \<Rightarrow> True)"

definition intLeNumber :: "int \<Rightarrow> js_number \<Rightarrow> bool" where
  "intLeNumber d n =
     (case n of NaN \<Rightarrow> False | Finite k \<Rightarrow> d \<le> k | PosInfinity \<Rightarrow> True | NegInfinity \<Rightarrow> False)"

text \<open>\<open>Math.ceil(a / b)\<close> for integers \<open>a\<close> and \<open>b > 0\<close>, in integer arithmetic.\<close>

definition Math_ceil_div :: "int \<Rightarrow> int \<Rightarrow> int" where
  "Math_ceil_div a b = - ((- a) div b)"

text \<open>
  \<open>Array.prototype.sort(compare)\<close>. The comparator's result is a number; the sort reads NaN
  as \<open>+0\<close>. For a consistent comparator the language fixes the result (the stable sorted
  permutation), and the insertion sort below computes it: an element goes before the
  first later element it does not exceed.
\<close>

definition sortCompare :: "('a \<Rightarrow> 'a \<Rightarrow> number) \<Rightarrow> 'a \<Rightarrow> 'a \<Rightarrow> int" where
  "sortCompare compare a b = (case compare a b of None \<Rightarrow> 0 | Some v \<Rightarrow> v)"

fun sort_insert :: "('a \<Rightarrow> 'a \<Rightarrow> number) \<Rightarrow> 'a \<Rightarrow> 'a list \<Rightarrow> 'a list" where
  "sort_insert compare x [] = [x]"
| "sort_insert compare x (y # ys) =
     (if sortCompare compare x y \<le> 0 then x # y # ys else y # sort_insert compare x ys)"

definition js_sort :: "('a \<Rightarrow> 'a \<Rightarrow> number) \<Rightarrow> 'a list \<Rightarrow> 'a list" where
  "js_sort compare xs = foldr (sort_insert compare) xs []"

text \<open>A \<open>Set\<close> of strings keeps its members in insertion order; \<open>add\<close> of a member changes
  nothing. \<open>new Set(array)\<close> adds the elements in order and \<open>Array.from\<close> reads them back.\<close>

definition Set_add :: "'a \<Rightarrow> 'a list \<Rightarrow> 'a list" where
  "Set_add x members = (if x \<in> set members then members else members @ [x])"

definition Set_of :: "'a list \<Rightarrow> 'a list" where
  "Set_of xs = fold Set_add xs []"

section \<open>Constants and helpers of the module\<close>

definition DEFAULT_ALARM_DAYS :: int where
  "DEFAULT_ALARM_DAYS = 7"

definition CATEGORIES :: "string list" where
  "CATEGORIES =
     [''General'', ''Bebidas'', ''Alimentos Secos'', CHR ''L'' # CHR 0xE1 # ''cteos'',
      ''Fiambres y Embutidos'', ''Quesos'', ''Refrigerados'', ''Congelados'', ''Limpieza'',
      ''Otros'']"

text \<open>\<open>toLowerCase\<close> on code units below 256: A to Z and the accented capitals.\<close>

definition toLowerCaseChar :: "char \<Rightarrow> char" where
  "toLowerCaseChar c =
     (let n = (of_char c :: nat)
      in if (65 \<le> n \<and> n \<le> 90) \<or> (192 \<le> n \<and> n \<le> 214) \<or> (216 \<le> n \<and> n \<le> 222)
         then char_of (n + 32) else c)"

definition toLowerCase :: "string \<Rightarrow> string" where
  "toLowerCase s = map toLowerCaseChar s"

definition normalizeCategory :: "string \<Rightarrow> string" where
  "normalizeCategory cat =
     (let normalizedCat = toLowerCase (trim cat);
          match = find (\<lambda>c. toLowerCase c = normalizedCat) CATEGORIES
      in stringOr match (CATEGORIES ! 0))"

definition sanitizeDocId :: "string \<Rightarrow> string" where
  "sanitizeDocId nm = map (\<lambda>c. if c = CHR ''/'' then CHR ''_'' else c) nm"

section \<open>Data model\<close>

text \<open>The draft of the creation form (\<open>newItem\<close>), and an item of the list, which is a draft
  with the identifier of its document.\<close>

record draft =
  name :: string
  quantity :: js_number
  expirationDate :: string
  alarmDays :: js_number
  category :: string

record item = draft +
  item_id :: string

text \<open>A document of the \<open>stock_items\<close> collection as the store delivers it: the numeric
  fields hold whatever was written, the category may be absent.\<close>

record stock_doc =
  doc_id :: string
  data_name :: string
  data_quantity :: js_value
  data_expirationDate :: string
  data_alarmDays :: js_value
  data_category :: "string option"
  data_createdAt :: "string option"

section \<open>Expiration status\<close>

datatype expiration_status = OK | Warning | Expired

text \<open>The result of \<open>checkExpirationStatus\<close>; its \<open>message\<close>, a display text built from the
  same two values, is left out.\<close>

record expiration_result =
  status :: expiration_status
  days :: number

text \<open>
  \<open>getTime\<close> is \<open>new Date(dateString).getTime()\<close>, NaN (\<open>None\<close>) for a string that is not a
  date, and \<open>currentTime\<close> is \<open>new Date().getTime()\<close>, both in milliseconds. With a NaN
  difference both comparisons are false and the status stays OK.
\<close>

definition checkExpirationStatus ::
  "(string \<Rightarrow> number) \<Rightarrow> int \<Rightarrow> string \<Rightarrow> js_number \<Rightarrow> expiration_result" where
  "checkExpirationStatus getTime currentTime dateString thresholdDays =
     (case getTime dateString of
        None \<Rightarrow> \<lparr>status = OK, days = None\<rparr>
      | Some expirationTime \<Rightarrow>
          (let diffMs = expirationTime - currentTime;
               diffDays = Math_ceil_div diffMs (1000 * 60 * 60 * 24)
           in if diffDays < 0 then \<lparr>status = Expired, days = Some diffDays\<rparr>
              else if intLeNumber diffDays thresholdDays
              then \<lparr>status = Warning, days = Some diffDays\<rparr>
              else \<lparr>status = OK, days = Some diffDays\<rparr>))"

section \<open>The stock subscription\<close>

text \<open>The projection of one document: the spread of \<open>doc.data()\<close> with the identifier, the
  parsed quantity, the alarm days (default 7) and the category (default the first entry).\<close>

definition mapDoc :: "stock_doc \<Rightarrow> item" where
  "mapDoc d =
     \<lparr>name = data_name d,
      quantity = parseIntValue (data_quantity d),
      expirationDate = data_expirationDate d,
      alarmDays = numberOr (parseIntValue (data_alarmDays d)) DEFAULT_ALARM_DAYS,
      category = stringOr (data_category d) (CATEGORIES ! 0),
      item_id = doc_id d\<rparr>"

text \<open>The comparator of \<open>fetchedItems.sort\<close>: the difference of the two times, NaN when
  either date does not parse.\<close>

definition compareExpiration :: "(string \<Rightarrow> number) \<Rightarrow> item \<Rightarrow> item \<Rightarrow> number" where
  "compareExpiration getTime a b =
     (case getTime (expirationDate a) of
        None \<Rightarrow> None
      | Some ta \<Rightarrow> (case getTime (expirationDate b) of None \<Rightarrow> None | Some tb \<Rightarrow> Some (ta - tb)))"

definition fetchItems :: "(string \<Rightarrow> number) \<Rightarrow> stock_doc list \<Rightarrow> item list" where
  "fetchItems getTime docs = js_sort (compareExpiration getTime) (map mapDoc docs)"

section \<open>Application state\<close>

text \<open>
  The messages \<open>setErrorMessage\<close> receives in the operations modelled here:
  \<^item> \<open>MsgLoadItemsError\<close>: "No se pudieron cargar los articulos."
  \<^item> \<open>MsgCompleteRequired\<close>: "Por favor, complete todos los campos requeridos correctamente."
  \<^item> \<open>MsgSaveItemError\<close>: "Error al guardar el articulo."
  \<^item> \<open>MsgCompleteEdit\<close>: "Por favor, complete todos los campos de edicion correctamente."
  \<^item> \<open>MsgUpdateItemError\<close>: "Error al actualizar el articulo."
  \<^item> \<open>MsgNothingToImport\<close>: "No hay datos para importar o Firebase no esta listo."
  \<^item> \<open>MsgImportCompleted n e\<close>: "Importacion de nombres completada: n nombres unicos
    agregados/actualizados. e lineas ignoradas."
  \<^item> \<open>MsgImportCommitError\<close>: "Error grave al guardar los nombres comunes en Firestore. ..."
\<close>

datatype message =
    MsgLoadItemsError
  | MsgCompleteRequired
  | MsgSaveItemError
  | MsgCompleteEdit
  | MsgUpdateItemError
  | MsgNothingToImport
  | MsgImportCompleted nat nat
  | MsgImportCommitError

text \<open>The state of the component. \<open>db\<close> tells whether the store handle is set;
  \<open>urgentItems\<close> is the memoised list of the last render.\<close>

record app_state =
  items :: "item list"
  commonNames :: "string list"
  db :: bool
  userId :: "string option"
  newItem :: draft
  loading :: bool
  errorMessage :: "message option"
  editingItem :: "item option"
  showUrgentModal :: bool
  showImportModal :: bool
  importData :: string
  urgentItems :: "item list"

text \<open>The backing store: the documents of \<open>stock_items\<close>, and \<open>common_names\<close> as a map from
  document identifier to the stored \<open>name\<close> field.\<close>

record store =
  stock_items :: "stock_doc list"
  common_names :: "string \<rightharpoonup> string"

definition emptyDraft :: draft where
  "emptyDraft =
     \<lparr>name = [], quantity = Finite 1, expirationDate = [],
      alarmDays = Finite DEFAULT_ALARM_DAYS,
      category = CATEGORIES ! 0\<rparr>"

definition initialState :: app_state where
  "initialState =
     \<lparr>items = [], commonNames = [], db = False, userId = None, newItem = emptyDraft,
      loading = True, errorMessage = None, editingItem = None, showUrgentModal = False,
      showImportModal = False, importData = [], urgentItems = []\<rparr>"

text \<open>\<open>!db || !userId\<close>: the handle is missing, or the user identifier is null or empty.\<close>

definition notReady :: "app_state \<Rightarrow> bool" where
  "notReady st \<longleftrightarrow> \<not> db st \<or> (case userId st of None \<Rightarrow> True | Some u \<Rightarrow> u = [])"

section \<open>Unified names for autocompletion\<close>

text \<open>\<open>localeCompare\<close> is the host's collation, taken as a parameter.\<close>

definition uniqueItemNames ::
  "(string \<Rightarrow> string \<Rightarrow> int) \<Rightarrow> item list \<Rightarrow> string list \<Rightarrow> string list" where
  "uniqueItemNames localeCompare its cnames =
     (let namesFromStock = map (\<lambda>i. trim (name i)) its;
          combinedNames = Set_of (namesFromStock @ cnames)
      in js_sort (\<lambda>a b. Some (localeCompare a b)) combinedNames)"

text \<open>
  The same computation on a heap of arrays, to tell which arrays it writes. \<open>items.map\<close>,
  the array literal with the two spreads and \<open>Array.from\<close> each allocate a new array;
  \<open>sort\<close> sorts in place the array it is called on, here the one \<open>Array.from\<close> returned.
  A reference is an index into the heap; the result is the new heap and the reference of
  the returned array, or \<open>None\<close> when a reference does not hold the expected kind of array.
\<close>

datatype js_array = ItemArray "item list" | StringArray "string list"

type_synonym heap = "js_array list"

definition alloc :: "heap \<Rightarrow> js_array \<Rightarrow> heap \<times> nat" where
  "alloc h a = (h @ [a], length h)"

definition uniqueItemNamesOnHeap ::
  "(string \<Rightarrow> string \<Rightarrow> int) \<Rightarrow> heap \<Rightarrow> nat \<Rightarrow> nat \<Rightarrow> (heap \<times> nat) option" where
  "uniqueItemNamesOnHeap localeCompare h itemsRef namesRef =
     (if itemsRef < length h \<and> namesRef < length h
      then (case h ! itemsRef of
              StringArray _ \<Rightarrow> None
            | ItemArray its \<Rightarrow>
                (case h ! namesRef of
                   ItemArray _ \<Rightarrow> None
                 | StringArray cnames \<Rightarrow>
                     (let namesFromStock = map (\<lambda>i. trim (name i)) its;
                          h1 = fst (alloc h (StringArray namesFromStock));
                          spread = namesFromStock @ cnames;
                          h2 = fst (alloc h1 (StringArray spread));
                          combinedNames = Set_of spread;
                          h3 = fst (alloc h2 (StringArray combinedNames));
                          result = snd (alloc h2 (StringArray combinedNames))
                      in Some (h3[result := StringArray
                                    (js_sort (\<lambda>a b. Some (localeCompare a b)) combinedNames)],
                               result))))
      else None)"

section \<open>Form input\<close>

text \<open>The \<open>name\<close> attribute of the five inputs of a form.\<close>

datatype field = FieldName | FieldQuantity | FieldExpirationDate | FieldAlarmDays | FieldCategory

text \<open>\<open>{...prev, [name]: newValue}\<close>, where \<open>newValue\<close> is
  \<open>Math.max(1, parseInt(value, 10) || 1)\<close> for the two numeric fields.\<close>

definition changeField :: "field \<Rightarrow> string \<Rightarrow> 'a draft_scheme \<Rightarrow> 'a draft_scheme" where
  "changeField f v prev =
     (case f of
        FieldName \<Rightarrow> prev\<lparr>name := v\<rparr>
      | FieldQuantity \<Rightarrow> prev\<lparr>quantity := Math_max 1 (numberOr (parseInt v) 1)\<rparr>
      | FieldExpirationDate \<Rightarrow> prev\<lparr>expirationDate := v\<rparr>
      | FieldAlarmDays \<Rightarrow> prev\<lparr>alarmDays := Math_max 1 (numberOr (parseInt v) 1)\<rparr>
      | FieldCategory \<Rightarrow> prev\<lparr>category := v\<rparr>)"

definition handleInputChange :: "field \<Rightarrow> string \<Rightarrow> app_state \<Rightarrow> app_state" where
  "handleInputChange f v st = st\<lparr>newItem := changeField f v (newItem st)\<rparr>"

text \<open>The edit form exists only while an item is being edited.\<close>

definition handleEditChange :: "field \<Rightarrow> string \<Rightarrow> app_state \<Rightarrow> app_state" where
  "handleEditChange f v st =
     (case editingItem st of
        None \<Rightarrow> st
      | Some prev \<Rightarrow> st\<lparr>editingItem := Some (changeField f v prev)\<rparr>)"

section \<open>Writes to the store\<close>

text \<open>\<open>saveCommonName\<close>; \<open>written\<close> tells whether \<open>setDoc\<close> succeeds (a failure is only logged).\<close>

definition saveCommonName :: "bool \<Rightarrow> string \<Rightarrow> app_state \<Rightarrow> store \<Rightarrow> store" where
  "saveCommonName written nm st sto =
     (if notReady st \<or> nm = [] then sto
      else (let trimmedName = trim nm
            in if trimmedName \<noteq> [] \<and> trimmedName \<notin> set (commonNames st)
               then (if written
                     then sto\<lparr>common_names := (common_names sto)(sanitizeDocId trimmedName \<mapsto> trimmedName)\<rparr>
                     else sto)
               else sto))"

text \<open>\<open>addItem\<close>. The store assigns \<open>newId\<close>; \<open>createdAt\<close> is the current time as text;
  \<open>added\<close> tells whether \<open>addDoc\<close> succeeds.\<close>

definition addItem ::
  "string \<Rightarrow> string \<Rightarrow> bool \<Rightarrow> bool \<Rightarrow> app_state \<times> store \<Rightarrow> app_state \<times> store" where
  "addItem newId createdAt added written p =
     (let st = fst p; sto = snd p; d = newItem st
      in if notReady st then (st, sto)
         else if name d = [] \<or> expirationDate d = [] \<or> numberLeZero (quantity d)
                 \<or> numberLeZero (alarmDays d)
         then (st\<lparr>errorMessage := Some MsgCompleteRequired\<rparr>, sto)
         else (let st1 = st\<lparr>errorMessage := None\<rparr>;
                   trimmedName = trim (name d)
               in if added
                  then (st1\<lparr>newItem := emptyDraft\<rparr>,
                        saveCommonName written trimmedName st1
                          (sto\<lparr>stock_items := stock_items sto @
                             [\<lparr>doc_id = newId, data_name = trimmedName,
                               data_quantity = JNumber (quantity d),
                               data_expirationDate = expirationDate d,
                               data_alarmDays = JNumber (alarmDays d),
                               data_category = Some (category d),
                               data_createdAt = Some createdAt\<rparr>]\<rparr>))
                  else (st1\<lparr>errorMessage := Some MsgSaveItemError\<rparr>, sto)))"

text \<open>\<open>updateItem\<close>. \<open>updateDoc\<close> changes the five fields of the document with the identifier
  of the item and fails when there is none.\<close>

definition updateDoc :: "item \<Rightarrow> string \<Rightarrow> stock_doc \<Rightarrow> stock_doc" where
  "updateDoc e trimmedName d =
     (if doc_id d = item_id e
      then d\<lparr>data_name := trimmedName, data_quantity := JNumber (quantity e),
             data_expirationDate := expirationDate e,
             data_alarmDays := JNumber (alarmDays e),
             data_category := Some (category e)\<rparr>
      else d)"

definition updateItem :: "bool \<Rightarrow> bool \<Rightarrow> app_state \<times> store \<Rightarrow> app_state \<times> store" where
  "updateItem updated written p =
     (let st = fst p; sto = snd p
      in if notReady st then (st, sto)
         else (case editingItem st of
                 None \<Rightarrow> (st, sto)
               | Some e \<Rightarrow>
                   if name e = [] \<or> expirationDate e = [] \<or> numberLeZero (quantity e)
                      \<or> numberLeZero (alarmDays e)
                   then (st\<lparr>errorMessage := Some MsgCompleteEdit\<rparr>, sto)
                   else (let st1 = st\<lparr>errorMessage := None\<rparr>;
                             trimmedName = trim (name e)
                         in if updated \<and> (\<exists>d \<in> set (stock_items sto). doc_id d = item_id e)
                            then (st1\<lparr>editingItem := None\<rparr>,
                                  saveCommonName written trimmedName st1
                                    (sto\<lparr>stock_items := map (updateDoc e trimmedName) (stock_items sto)\<rparr>))
                            else (st1\<lparr>errorMessage := Some MsgUpdateItemError\<rparr>, sto))))"

section \<open>Urgent items and the alarm modal\<close>

definition isUrgent :: "(string \<Rightarrow> number) \<Rightarrow> int \<Rightarrow> item \<Rightarrow> bool" where
  "isUrgent getTime currentTime i =
     (let st = status (checkExpirationStatus getTime currentTime (expirationDate i) (alarmDays i))
      in st = Expired \<or> st = Warning)"

definition computeUrgentItems :: "(string \<Rightarrow> number) \<Rightarrow> int \<Rightarrow> item list \<Rightarrow> item list" where
  "computeUrgentItems getTime currentTime its = filter (isUrgent getTime currentTime) its"

text \<open>
  The effect with dependencies \<open>[urgentItems.length, loading]\<close>: after a render it runs when
  one of the two differs from the previous render (\<open>prev\<close>), and then shows the modal when
  there are urgent items and loading is over.
\<close>

definition urgentEffect :: "app_state \<Rightarrow> app_state \<Rightarrow> app_state" where
  "urgentEffect prev st =
     (if length (urgentItems st) \<noteq> length (urgentItems prev) \<or> loading st \<noteq> loading prev
      then (if length (urgentItems st) > 0 \<and> \<not> loading st then st\<lparr>showUrgentModal := True\<rparr> else st)
      else st)"

text \<open>
  The events that touch the items, the loading flag or the modal flag: a snapshot of the
  stock subscription (rendered at \<open>currentTime\<close>, when the memoised urgent list is
  recomputed from the new items), a failure of the subscription, \<open>setLoading\<close> at the start
  of a subscription and around the import, and the button of the modal.
\<close>

datatype event =
    StockSnapshot "stock_doc list" int
  | StockSnapshotError
  | SetLoading bool
  | HandleClose

definition step :: "(string \<Rightarrow> number) \<Rightarrow> event \<Rightarrow> app_state \<Rightarrow> app_state" where
  "step getTime e st =
     (case e of
        StockSnapshot docs currentTime \<Rightarrow>
          (let fetchedItems = fetchItems getTime docs
           in urgentEffect st
                (st\<lparr>items := fetchedItems, loading := False,
                    urgentItems := computeUrgentItems getTime currentTime fetchedItems\<rparr>))
      | StockSnapshotError \<Rightarrow>
          urgentEffect st (st\<lparr>errorMessage := Some MsgLoadItemsError, loading := False\<rparr>)
      | SetLoading b \<Rightarrow> urgentEffect st (st\<lparr>loading := b\<rparr>)
      | HandleClose \<Rightarrow> st\<lparr>showUrgentModal := False\<rparr>)"

definition run :: "(string \<Rightarrow> number) \<Rightarrow> event list \<Rightarrow> app_state \<Rightarrow> app_state" where
  "run getTime es st = fold (step getTime) es st"

section \<open>Import of common names\<close>

text \<open>The name of one line: the first field, split on TAB when the line has one and on
  comma otherwise, trimmed; the empty string is falsy.\<close>

definition lineName :: "string \<Rightarrow> string" where
  "lineName line =
     (let vs = (if length (split_str CHR 0x09 line) > 1 then split_str CHR 0x09 line
                else split_str CHR '','' line)
      in case vs of [] \<Rightarrow> [] | v # _ \<Rightarrow> trim v)"

text \<open>The loop over the lines, on \<open>(namesToSave, successCount, errorCount)\<close>.\<close>

definition importLine :: "string \<Rightarrow> string list \<times> nat \<times> nat \<Rightarrow> string list \<times> nat \<times> nat" where
  "importLine line acc =
     (case acc of (namesToSave, successCount, errorCount) \<Rightarrow>
        (let nm = lineName line
         in if nm \<noteq> [] then (Set_add nm namesToSave, successCount + 1, errorCount)
            else (namesToSave, successCount, errorCount + 1)))"

definition extractNames :: "string \<Rightarrow> string list \<times> nat \<times> nat" where
  "extractNames raw = fold importLine (split_str CHR 0x0A (trim raw)) ([], 0, 0)"

text \<open>\<open>batch.set(doc(namesCollectionRef, docId), {name})\<close> and the commit of the batch, in
  the order of the set.\<close>

definition batchSet :: "string \<Rightarrow> (string \<rightharpoonup> string) \<Rightarrow> (string \<rightharpoonup> string)" where
  "batchSet nm m = m(sanitizeDocId nm \<mapsto> nm)"

definition commitNames :: "string list \<Rightarrow> (string \<rightharpoonup> string) \<Rightarrow> (string \<rightharpoonup> string)" where
  "commitNames namesToSave m = fold batchSet namesToSave m"

text \<open>\<open>handleImport\<close>; \<open>committed\<close> tells whether \<open>batch.commit()\<close> succeeds. The loading flag
  is set before the commit and cleared after it, each followed by a render.\<close>

definition handleImport :: "bool \<Rightarrow> app_state \<times> store \<Rightarrow> app_state \<times> store" where
  "handleImport committed p =
     (let st = fst p; sto = snd p
      in if notReady st \<or> trim (importData st) = []
         then (st\<lparr>errorMessage := Some MsgNothingToImport\<rparr>, sto)
         else (let st1 = urgentEffect st (st\<lparr>loading := True, errorMessage := None\<rparr>)
               in case extractNames (importData st) of (namesToSave, successCount, errorCount) \<Rightarrow>
                    if committed
                    then (urgentEffect st1
                            (st1\<lparr>importData := [], showImportModal := False,
                                 errorMessage := Some (MsgImportCompleted (length namesToSave) errorCount),
                                 loading := False\<rparr>),
                          sto\<lparr>common_names := commitNames namesToSave (common_names sto)\<rparr>)
                    else (urgentEffect st1
                            (st1\<lparr>errorMessage := Some MsgImportCommitError, loading := False\<rparr>),
                          sto)))"

section \<open>The call to the text generation service\<close>

text \<open>
  What the loop reads of a response: the status, the status text and the parsed body
  (\<open>None\<close> when \<open>response.json()\<close> rejects). Of the body it reads
  \<open>candidates?.[0]?.content?.parts?.[0]?.text\<close> on success and \<open>error?.message\<close> on failure.
  A fetch that rejects is \<open>None\<close>.
\<close>

record json_body =
  candidateText :: "string option"
  errorText :: "string option"

record response =
  httpStatus :: nat
  statusText :: string
  json :: "json_body option"

definition ok :: "response \<Rightarrow> bool" where
  "ok r \<longleftrightarrow> 200 \<le> httpStatus r \<and> httpStatus r \<le> 299"

text \<open>The state of a call: the three state variables, and a trace of the fetches made and
  of the delays slept, in order.\<close>

record gemini_state =
  geminiLoading :: bool
  geminiResponse :: "string option"
  showGeminiModal :: bool
  attempts :: nat
  sleeps :: "nat list"

definition maxRetries :: nat where
  "maxRetries = 3"

definition noAnswerText :: string where
  "noAnswerText = ''No se pudo generar una respuesta.''"

definition connectionErrorText :: string where
  "connectionErrorText = ''Error de conexi'' @ [CHR 0xF3] @ ''n con el servicio de IA.''"

text \<open>The loop \<open>for (let i = 0; i < maxRetries; i++)\<close>; \<open>fetch i\<close> is the outcome of the fetch
  of iteration \<open>i\<close>. The \<open>catch\<close> branch is reached by a rejected fetch and by a body that
  does not parse.\<close>

function retryLoop ::
  "(nat \<Rightarrow> response option) \<Rightarrow> nat \<Rightarrow> nat \<Rightarrow> gemini_state \<Rightarrow> gemini_state" where
  "retryLoop fetch i delay s =
     (if i < maxRetries
      then (let s1 = s\<lparr>attempts := attempts s + 1\<rparr>;
                caught = (if i < maxRetries - 1
                          then retryLoop fetch (i + 1) (delay * 2) (s1\<lparr>sleeps := sleeps s1 @ [delay]\<rparr>)
                          else s1\<lparr>geminiResponse := Some connectionErrorText\<rparr>)
            in case fetch i of
                 None \<Rightarrow> caught
               | Some r \<Rightarrow>
                   if ok r
                   then (case json r of
                           None \<Rightarrow> caught
                         | Some body \<Rightarrow>
                             s1\<lparr>geminiResponse := Some (stringOr (candidateText body) noAnswerText)\<rparr>)
                   else if httpStatus r = 429 \<and> i < maxRetries - 1
                   then retryLoop fetch (i + 1) (delay * 2) (s1\<lparr>sleeps := sleeps s1 @ [delay]\<rparr>)
                   else (case json r of
                           None \<Rightarrow> caught
                         | Some body \<Rightarrow>
                             s1\<lparr>geminiResponse :=
                                  Some (''Error: '' @ stringOr (errorText body) (statusText r))\<rparr>))
      else s)"
  by pat_completeness auto
termination
  by (relation "measure (\<lambda>(fetch, i, delay, s). maxRetries - i)") auto

declare retryLoop.simps [simp del]

definition generateGeminiContent :: "(nat \<Rightarrow> response option) \<Rightarrow> gemini_state \<Rightarrow> gemini_state" where
  "generateGeminiContent fetch s =
     (let s0 = s\<lparr>geminiLoading := True, geminiResponse := None, attempts := 0, sleeps := []\<rparr>;
          s1 = retryLoop fetch 0 1000 s0
      in s1\<lparr>geminiLoading := False, showGeminiModal := True\<rparr>)"

section \<open>Predicates used in the statements\<close>

text \<open>The items are in non-decreasing order of expiration time, every date parsing.\<close>

definition sortedByExpiration :: "(string \<Rightarrow> number) \<Rightarrow> item list \<Rightarrow> bool" where
  "sortedByExpiration getTime its =
     sorted_wrt (\<lambda>a b. case getTime (expirationDate a) of
                          None \<Rightarrow> False
                        | Some ta \<Rightarrow> (case getTime (expirationDate b) of None \<Rightarrow> False | Some tb \<Rightarrow> ta \<le> tb))
       its"

text \<open>Every document of a snapshot event carries a date that parses.\<close>

definition datesParse :: "(string \<Rightarrow> number) \<Rightarrow> event \<Rightarrow> bool" where
  "datesParse getTime e =
     (case e of
        StockSnapshot docs currentTime \<Rightarrow> list_all (\<lambda>d. getTime (data_expirationDate d) \<noteq> None) docs
      | _ \<Rightarrow> True)"

text \<open>The stored category is absent, empty or one of the fixed list.\<close>

definition storedCategoryKnown :: "stock_doc \<Rightarrow> bool" where
  "storedCategoryKnown d \<longleftrightarrow>
     (case data_category d of None \<Rightarrow> True | Some c \<Rightarrow> c = [] \<or> c \<in> set CATEGORIES)"

text \<open>The outcomes after which the loop goes on when attempts remain: a rejected fetch, a
  body that does not parse, and status 429.\<close>

definition retryable :: "(nat \<Rightarrow> response option) \<Rightarrow> nat \<Rightarrow> bool" where
  "retryable fetch i \<longleftrightarrow>
     (case fetch i of
        None \<Rightarrow> True
      | Some r \<Rightarrow> json r = None \<or> (\<not> ok r \<and> httpStatus r = 429))"

section \<open>Example data\<close>

text \<open>Three dates at UTC midnight, a current time of 2025-01-07 at 01:00 UTC, and a stored
  document with threshold 7.\<close>

definition exampleGetTime :: "string \<Rightarrow> number" where
  "exampleGetTime s =
     (if s = ''2025-01-08'' then Some 1736294400000
      else if s = ''2025-01-09'' then Some 1736380800000
      else if s = ''2025-01-10'' then Some 1736467200000
      else None)"

definition exampleNow :: int where
  "exampleNow = 1736211600000"

definition exampleDoc :: "string \<Rightarrow> string \<Rightarrow> string \<Rightarrow> stock_doc" where
  "exampleDoc ident nm date =
     \<lparr>doc_id = ident, data_name = nm, data_quantity = JNumber (Finite 1),
      data_expirationDate = date, data_alarmDays = JNumber (Finite 7),
      data_category = Some ''General'', data_createdAt = None\<rparr>"

text \<open>A collation for the examples, the order of the code units, and an item with a
  given identifier and name.\<close>

definition exampleCompare :: "string \<Rightarrow> string \<Rightarrow> int" where
  "exampleCompare a b = (if a < b then - 1 else if b < a then 1 else 0)"

definition exampleItem :: "string \<Rightarrow> string \<Rightarrow> item" where
  "exampleItem ident nm =
     \<lparr>name = nm, quantity = Finite 1, expirationDate = ''2025-01-10'', alarmDays = Finite 7,
      category = ''General'', item_id = ident\<rparr>"

section \<open>Verified properties: expiration status\<close>

lemma Math_ceil_div_ceiling:
  "0 < b \<Longrightarrow> Math_ceil_div a b = \<lceil>real_of_int a / real_of_int b\<rceil>"
  unfolding Math_ceil_div_def by (simp add: ceiling_divide_eq_div)

text \<open>
  C1. For every expiration date that parses, every threshold \<open>T \<ge> 1\<close> and every current
  moment, \<open>checkExpirationStatus\<close> returns as days the ceiling of the difference between the
  expiration time and the current time in whole days (of 86400000 ms), and the status is
  Expired iff that number is negative, Warning iff it lies between 0 and \<open>T\<close>, and OK iff
  it exceeds \<open>T\<close>. (With an infinite threshold the same holds: the status is Expired for
  a negative number of days and Warning otherwise.)
\<close>

theorem checkExpirationStatus_classifies:
  assumes "1 \<le> T" and "getTime dateString = Some expirationTime"
  shows "days (checkExpirationStatus getTime now dateString (Finite T))
           = Some \<lceil>real_of_int (expirationTime - now) / 86400000\<rceil>
       \<and> (status (checkExpirationStatus getTime now dateString (Finite T)) = Expired
            \<longleftrightarrow> \<lceil>real_of_int (expirationTime - now) / 86400000\<rceil> < 0)
       \<and> (status (checkExpirationStatus getTime now dateString (Finite T)) = Warning
            \<longleftrightarrow> 0 \<le> \<lceil>real_of_int (expirationTime - now) / 86400000\<rceil>
              \<and> \<lceil>real_of_int (expirationTime - now) / 86400000\<rceil> \<le> T)
       \<and> (status (checkExpirationStatus getTime now dateString (Finite T)) = OK
            \<longleftrightarrow> T < \<lceil>real_of_int (expirationTime - now) / 86400000\<rceil>)
       \<and> days (checkExpirationStatus getTime now dateString PosInfinity)
           = Some \<lceil>real_of_int (expirationTime - now) / 86400000\<rceil>
       \<and> status (checkExpirationStatus getTime now dateString PosInfinity)
           = (if \<lceil>real_of_int (expirationTime - now) / 86400000\<rceil> < 0 then Expired else Warning)"
proof -
  define D where "D = \<lceil>real_of_int (expirationTime - now) / 86400000\<rceil>"
  have "Math_ceil_div (expirationTime - now) 86400000
          = \<lceil>real_of_int (expirationTime - now) / real_of_int 86400000\<rceil>"
    by (rule Math_ceil_div_ceiling) simp
  then have c: "Math_ceil_div (expirationTime - now) 86400000 = D"
    by (simp add: D_def)
  have "days (checkExpirationStatus getTime now dateString (Finite T)) = Some D
       \<and> (status (checkExpirationStatus getTime now dateString (Finite T)) = Expired \<longleftrightarrow> D < 0)
       \<and> (status (checkExpirationStatus getTime now dateString (Finite T)) = Warning
            \<longleftrightarrow> 0 \<le> D \<and> D \<le> T)
       \<and> (status (checkExpirationStatus getTime now dateString (Finite T)) = OK \<longleftrightarrow> T < D)
       \<and> days (checkExpirationStatus getTime now dateString PosInfinity) = Some D
       \<and> status (checkExpirationStatus getTime now dateString PosInfinity)
           = (if D < 0 then Expired else Warning)"
    using assms by (simp add: checkExpirationStatus_def Let_def c intLeNumber_def)
  then show ?thesis unfolding D_def .
qed

text \<open>An item expiring on 2025-01-10 (UTC midnight), read on 2025-01-07 at 01:00 UTC with
  threshold 7: two days and 23 hours are left, reported as 3 days, status Warning.\<close>

theorem checkExpirationStatus_classifies_witness:
  "(1::int) \<le> 7
   \<and> exampleGetTime ''2025-01-10'' = Some 1736467200000
   \<and> days (checkExpirationStatus exampleGetTime exampleNow ''2025-01-10'' (Finite 7)) = Some 3
   \<and> status (checkExpirationStatus exampleGetTime exampleNow ''2025-01-10'' (Finite 7)) = Warning"
  using checkExpirationStatus_classifies
    [of 7 exampleGetTime "''2025-01-10''" 1736467200000 exampleNow]
  by (simp add: exampleGetTime_def exampleNow_def ceiling_divide_eq_div)

section \<open>Verified properties: the call to the text generation service\<close>

lemma retryLoop_again:
  assumes "i < maxRetries - 1" and "retryable fetch i"
  shows "retryLoop fetch i d s =
           retryLoop fetch (i + 1) (d * 2) (s\<lparr>attempts := attempts s + 1, sleeps := sleeps s @ [d]\<rparr>)"
  using assms
  by (auto simp add: retryLoop.simps [of fetch i d s] retryable_def ok_def Let_def maxRetries_def
           split: option.splits)

lemma retryLoop_stop:
  assumes "i < maxRetries" and "\<not> (i < maxRetries - 1 \<and> retryable fetch i)"
  shows "attempts (retryLoop fetch i d s) = attempts s + 1
       \<and> sleeps (retryLoop fetch i d s) = sleeps s"
  using assms
  by (auto simp add: retryLoop.simps [of fetch i d s] retryable_def Let_def maxRetries_def
           split: option.splits)

lemma retryLoop_trace:
  "(attempts (retryLoop fetch 0 d s) = attempts s + 1 \<and> sleeps (retryLoop fetch 0 d s) = sleeps s)
   \<or> (attempts (retryLoop fetch 0 d s) = attempts s + 2 \<and> sleeps (retryLoop fetch 0 d s) = sleeps s @ [d])
   \<or> (attempts (retryLoop fetch 0 d s) = attempts s + 3
       \<and> sleeps (retryLoop fetch 0 d s) = sleeps s @ [d, d * 2])"
proof (cases "retryable fetch 0")
  case False
  then show ?thesis using retryLoop_stop [of 0 fetch d s] by (simp add: maxRetries_def)
next
  case r0: True
  then have e0: "retryLoop fetch 0 d s =
      retryLoop fetch 1 (d * 2) (s\<lparr>attempts := attempts s + 1, sleeps := sleeps s @ [d]\<rparr>)"
    using retryLoop_again [of 0 fetch d s] by (simp add: maxRetries_def)
  show ?thesis
  proof (cases "retryable fetch 1")
    case False
    then show ?thesis
      using retryLoop_stop [of 1 fetch "d * 2" "s\<lparr>attempts := attempts s + 1, sleeps := sleeps s @ [d]\<rparr>"]
      by (simp add: e0 maxRetries_def)
  next
    case True
    then have e1: "retryLoop fetch 0 d s =
      retryLoop fetch 2 (d * 2 * 2)
        (s\<lparr>attempts := attempts s + 1 + 1, sleeps := sleeps s @ [d] @ [d * 2]\<rparr>)"
      using retryLoop_again [of 1 fetch "d * 2" "s\<lparr>attempts := attempts s + 1, sleeps := sleeps s @ [d]\<rparr>"]
      by (simp add: e0 maxRetries_def numeral_2_eq_2)
    show ?thesis
      using retryLoop_stop [of 2 fetch "d * 2 * 2"
          "s\<lparr>attempts := attempts s + 1 + 1, sleeps := sleeps s @ [d] @ [d * 2]\<rparr>"]
      unfolding e1 by (simp add: maxRetries_def)
  qed
qed

lemma retryLoop_prefix:
  assumes "i < maxRetries" and "\<forall>j<i. retryable fetch j"
  shows "retryLoop fetch 0 1000 s =
           retryLoop fetch i (1000 * 2 ^ i)
             (s\<lparr>attempts := attempts s + i, sleeps := sleeps s @ take i [1000, 2000]\<rparr>)"
proof -
  have "i = 0 \<or> i = 1 \<or> i = 2"
    using assms(1) unfolding maxRetries_def by arith
  then consider "i = 0" | "i = 1" | "i = 2"
    by blast
  then show ?thesis
  proof cases
    case 1
    then show ?thesis by simp
  next
    case 2
    then show ?thesis
      using assms(2) retryLoop_again [of 0 fetch 1000 s] by (simp add: maxRetries_def)
  next
    case 3
    then have r: "retryable fetch 0" "retryable fetch 1"
      using assms(2) by simp_all
    have "retryLoop fetch 0 1000 s =
            retryLoop fetch 1 2000 (s\<lparr>attempts := attempts s + 1, sleeps := sleeps s @ [1000]\<rparr>)"
      using r(1) retryLoop_again [of 0 fetch 1000 s] by (simp add: maxRetries_def)
    also have "\<dots> = retryLoop fetch 2 4000
        (s\<lparr>attempts := attempts s + 2, sleeps := sleeps s @ [1000, 2000]\<rparr>)"
      using r(2) retryLoop_again [of 1 fetch 2000
          "s\<lparr>attempts := attempts s + 1, sleeps := sleeps s @ [1000]\<rparr>"]
      by (simp add: maxRetries_def numeral_2_eq_2)
    finally show ?thesis using 3 by simp
  qed
qed

lemma retryLoop_http_error:
  assumes "i < maxRetries" and "fetch i = Some r" and "\<not> ok r"
    and "httpStatus r \<noteq> 429 \<or> i = maxRetries - 1" and "json r = Some body"
  shows "retryLoop fetch i d s =
           s\<lparr>attempts := attempts s + 1,
             geminiResponse := Some (''Error: '' @ stringOr (errorText body) (statusText r))\<rparr>"
  using assms by (auto simp add: retryLoop.simps [of fetch i d s] Let_def)

lemma retryLoop_success:
  assumes "i < maxRetries" and "fetch i = Some r" and "ok r" and "json r = Some body"
  shows "retryLoop fetch i d s =
           s\<lparr>attempts := attempts s + 1,
             geminiResponse := Some (stringOr (candidateText body) noAnswerText)\<rparr>"
  using assms by (simp add: retryLoop.simps [of fetch i d s] Let_def)

lemma retryLoop_exhausted:
  assumes "\<forall>r. fetch 2 = Some r \<longrightarrow> json r = None"
  shows "retryLoop fetch 2 d s =
           s\<lparr>attempts := attempts s + 1, geminiResponse := Some connectionErrorText\<rparr>"
  using assms
  by (auto simp add: retryLoop.simps [of fetch 2 d s] Let_def maxRetries_def
        split: option.splits)

text \<open>
  C3. A call makes at least one and at most 3 fetches, and the delays slept are the first
  \<open>attempts - 1\<close> of 1000 ms and 2000 ms: the delay starts at 1000, doubles after each
  retryable failure, is slept before the next attempt and never after the last. When the
  first two responses have status 429 and the third has status 200 with a body that
  parses, the call makes 3 fetches, sleeps 1000 ms and then 2000 ms, and ends with the
  generated text (or the placeholder when the body holds none), the busy flag cleared and
  the modal shown.
\<close>

theorem generateGeminiContent_backoff:
  "1 \<le> attempts (generateGeminiContent fetch s)
   \<and> attempts (generateGeminiContent fetch s) \<le> 3
   \<and> sleeps (generateGeminiContent fetch s)
       = take (attempts (generateGeminiContent fetch s) - 1) [1000, 2000]
   \<and> (\<forall>r0 r1 r2 body.
         fetch 0 = Some r0 \<and> httpStatus r0 = 429 \<and> fetch 1 = Some r1 \<and> httpStatus r1 = 429
         \<and> fetch 2 = Some r2 \<and> httpStatus r2 = 200 \<and> json r2 = Some body
         \<longrightarrow> attempts (generateGeminiContent fetch s) = 3
           \<and> sleeps (generateGeminiContent fetch s) = [1000, 2000]
           \<and> geminiResponse (generateGeminiContent fetch s)
               = Some (stringOr (candidateText body) noAnswerText)
           \<and> \<not> geminiLoading (generateGeminiContent fetch s)
           \<and> showGeminiModal (generateGeminiContent fetch s))"
proof -
  let ?s0 = "s\<lparr>geminiLoading := True, geminiResponse := None, attempts := 0, sleeps := []\<rparr>"
  have g: "generateGeminiContent fetch s =
             (retryLoop fetch 0 1000 ?s0)\<lparr>geminiLoading := False, showGeminiModal := True\<rparr>"
    by (simp add: generateGeminiContent_def Let_def)
  have bound: "1 \<le> attempts (generateGeminiContent fetch s)
     \<and> attempts (generateGeminiContent fetch s) \<le> 3
     \<and> sleeps (generateGeminiContent fetch s)
         = take (attempts (generateGeminiContent fetch s) - 1) [1000, 2000]"
    using retryLoop_trace [of fetch 1000 ?s0] unfolding g by auto
  have scenario: "attempts (generateGeminiContent fetch s) = 3
           \<and> sleeps (generateGeminiContent fetch s) = [1000, 2000]
           \<and> geminiResponse (generateGeminiContent fetch s)
               = Some (stringOr (candidateText body) noAnswerText)
           \<and> \<not> geminiLoading (generateGeminiContent fetch s)
           \<and> showGeminiModal (generateGeminiContent fetch s)"
    if h: "fetch 0 = Some r0 \<and> httpStatus r0 = 429 \<and> fetch 1 = Some r1 \<and> httpStatus r1 = 429
         \<and> fetch 2 = Some r2 \<and> httpStatus r2 = 200 \<and> json r2 = Some body"
    for r0 r1 r2 body
  proof -
    have "\<forall>j<2. retryable fetch j"
      using h by (auto simp: retryable_def ok_def less_Suc_eq numeral_2_eq_2)
    then have "retryLoop fetch 0 1000 ?s0 =
        retryLoop fetch 2 (1000 * 2 ^ 2)
          (?s0\<lparr>attempts := attempts ?s0 + 2, sleeps := sleeps ?s0 @ take 2 [1000, 2000]\<rparr>)"
      using retryLoop_prefix [of 2 fetch ?s0] by (simp add: maxRetries_def)
    moreover have "ok r2" using h by (simp add: ok_def)
    ultimately show ?thesis
      using h retryLoop_success [of 2 fetch r2 body] unfolding g
      by (simp add: maxRetries_def)
  qed
  show ?thesis using bound scenario by blast
qed

text \<open>Two responses 429, then 200 with a text.\<close>

theorem generateGeminiContent_backoff_witness:
  "attempts (generateGeminiContent
      (\<lambda>i. if i < 2
           then Some \<lparr>httpStatus = 429, statusText = ''Too Many Requests'',
                      json = Some \<lparr>candidateText = None, errorText = Some ''quota''\<rparr>\<rparr>
           else Some \<lparr>httpStatus = 200, statusText = ''OK'',
                      json = Some \<lparr>candidateText = Some ''Use the milk today'', errorText = None\<rparr>\<rparr>)
      \<lparr>geminiLoading = False, geminiResponse = None, showGeminiModal = False,
       attempts = 0, sleeps = []\<rparr>) = 3
   \<and> sleeps (generateGeminiContent
      (\<lambda>i. if i < 2
           then Some \<lparr>httpStatus = 429, statusText = ''Too Many Requests'',
                      json = Some \<lparr>candidateText = None, errorText = Some ''quota''\<rparr>\<rparr>
           else Some \<lparr>httpStatus = 200, statusText = ''OK'',
                      json = Some \<lparr>candidateText = Some ''Use the milk today'', errorText = None\<rparr>\<rparr>)
      \<lparr>geminiLoading = False, geminiResponse = None, showGeminiModal = False,
       attempts = 0, sleeps = []\<rparr>) = [1000, 2000]
   \<and> geminiResponse (generateGeminiContent
      (\<lambda>i. if i < 2
           then Some \<lparr>httpStatus = 429, statusText = ''Too Many Requests'',
                      json = Some \<lparr>candidateText = None, errorText = Some ''quota''\<rparr>\<rparr>
           else Some \<lparr>httpStatus = 200, statusText = ''OK'',
                      json = Some \<lparr>candidateText = Some ''Use the milk today'', errorText = None\<rparr>\<rparr>)
      \<lparr>geminiLoading = False, geminiResponse = None, showGeminiModal = False,
       attempts = 0, sleeps = []\<rparr>) = Some ''Use the milk today''"
  using generateGeminiContent_backoff
    [of "\<lambda>i. if i < 2
           then Some \<lparr>httpStatus = 429, statusText = ''Too Many Requests'',
                      json = Some \<lparr>candidateText = None, errorText = Some ''quota''\<rparr>\<rparr>
           else Some \<lparr>httpStatus = 200, statusText = ''OK'',
                      json = Some \<lparr>candidateText = Some ''Use the milk today'', errorText = None\<rparr>\<rparr>"
        "\<lparr>geminiLoading = False, geminiResponse = None, showGeminiModal = False,
          attempts = 0, sleeps = []\<rparr>"]
  by (simp add: stringOr_def)

lemma connectionErrorText_not_http: "connectionErrorText \<noteq> ''Error: '' @ m"
  by (simp add: connectionErrorText_def)


text \<open>
  C6, as the code has it. A response that is not a success, whose body parses, and whose
  status is not 429 ends the call on the attempt that received it: no further fetch, no
  sleep after it, and the response text is "Error: " followed by the message of the body
  (or the status text). A 429 on the third attempt takes the same branch and gives a text
  of the same form. When the third fetch is rejected after two retryable failures the
  text is the fixed connection error, which differs from every "Error: ..." text.
\<close>

theorem generateGeminiContent_failures:
  "(\<forall>i r body.
      i < 3 \<and> (\<forall>j<i. retryable fetch j) \<and> fetch i = Some r \<and> \<not> ok r
      \<and> (httpStatus r \<noteq> 429 \<or> i = 2) \<and> json r = Some body
      \<longrightarrow> attempts (generateGeminiContent fetch s) = i + 1
        \<and> sleeps (generateGeminiContent fetch s) = take i [1000, 2000]
        \<and> geminiResponse (generateGeminiContent fetch s)
            = Some (''Error: '' @ stringOr (errorText body) (statusText r)))
   \<and> ((\<forall>j<2. retryable fetch j) \<and> fetch 2 = None
      \<longrightarrow> attempts (generateGeminiContent fetch s) = 3
        \<and> sleeps (generateGeminiContent fetch s) = [1000, 2000]
        \<and> geminiResponse (generateGeminiContent fetch s) = Some connectionErrorText)
   \<and> (\<forall>m. connectionErrorText \<noteq> ''Error: '' @ m)"
proof -
  let ?s0 = "s\<lparr>geminiLoading := True, geminiResponse := None, attempts := 0, sleeps := []\<rparr>"
  have g: "generateGeminiContent fetch s =
             (retryLoop fetch 0 1000 ?s0)\<lparr>geminiLoading := False, showGeminiModal := True\<rparr>"
    by (simp add: generateGeminiContent_def Let_def)
  have http: "attempts (generateGeminiContent fetch s) = i + 1
        \<and> sleeps (generateGeminiContent fetch s) = take i [1000, 2000]
        \<and> geminiResponse (generateGeminiContent fetch s)
            = Some (''Error: '' @ stringOr (errorText body) (statusText r))"
    if h: "i < 3 \<and> (\<forall>j<i. retryable fetch j) \<and> fetch i = Some r \<and> \<not> ok r
      \<and> (httpStatus r \<noteq> 429 \<or> i = 2) \<and> json r = Some body"
    for i r body
  proof -
    have "retryLoop fetch 0 1000 ?s0 =
        retryLoop fetch i (1000 * 2 ^ i)
          (?s0\<lparr>attempts := attempts ?s0 + i, sleeps := sleeps ?s0 @ take i [1000, 2000]\<rparr>)"
      using h retryLoop_prefix [of i fetch ?s0] by (simp add: maxRetries_def)
    then show ?thesis
      using h retryLoop_http_error [of i fetch r body] unfolding g
      by (simp add: maxRetries_def)
  qed
  have net: "attempts (generateGeminiContent fetch s) = 3
        \<and> sleeps (generateGeminiContent fetch s) = [1000, 2000]
        \<and> geminiResponse (generateGeminiContent fetch s) = Some connectionErrorText"
    if h: "(\<forall>j<2. retryable fetch j) \<and> fetch 2 = None"
  proof -
    have "retryLoop fetch 0 1000 ?s0 =
        retryLoop fetch 2 (1000 * 2 ^ 2)
          (?s0\<lparr>attempts := attempts ?s0 + 2, sleeps := sleeps ?s0 @ take 2 [1000, 2000]\<rparr>)"
      using h retryLoop_prefix [of 2 fetch ?s0] by (simp add: maxRetries_def)
    then show ?thesis
      using h retryLoop_exhausted [of fetch] unfolding g by simp
  qed
  show ?thesis using http net connectionErrorText_not_http by blast
qed

text \<open>A status 500 with an error message on the first attempt: one fetch, no sleep.\<close>

theorem generateGeminiContent_failures_witness:
  "attempts (generateGeminiContent
      (\<lambda>i. Some \<lparr>httpStatus = 500, statusText = ''Internal Server Error'',
                  json = Some \<lparr>candidateText = None, errorText = Some ''backend down''\<rparr>\<rparr>)
      \<lparr>geminiLoading = False, geminiResponse = None, showGeminiModal = False,
       attempts = 0, sleeps = []\<rparr>) = 1
   \<and> sleeps (generateGeminiContent
      (\<lambda>i. Some \<lparr>httpStatus = 500, statusText = ''Internal Server Error'',
                  json = Some \<lparr>candidateText = None, errorText = Some ''backend down''\<rparr>\<rparr>)
      \<lparr>geminiLoading = False, geminiResponse = None, showGeminiModal = False,
       attempts = 0, sleeps = []\<rparr>) = []
   \<and> geminiResponse (generateGeminiContent
      (\<lambda>i. Some \<lparr>httpStatus = 500, statusText = ''Internal Server Error'',
                  json = Some \<lparr>candidateText = None, errorText = Some ''backend down''\<rparr>\<rparr>)
      \<lparr>geminiLoading = False, geminiResponse = None, showGeminiModal = False,
       attempts = 0, sleeps = []\<rparr>) = Some ''Error: backend down''"
  using generateGeminiContent_failures
    [of "\<lambda>i. Some \<lparr>httpStatus = 500, statusText = ''Internal Server Error'',
                  json = Some \<lparr>candidateText = None, errorText = Some ''backend down''\<rparr>\<rparr>"
        "\<lparr>geminiLoading = False, geminiResponse = None, showGeminiModal = False,
          attempts = 0, sleeps = []\<rparr>",
      THEN conjunct1, rule_format,
      of 0 "\<lparr>httpStatus = 500, statusText = ''Internal Server Error'',
                  json = Some \<lparr>candidateText = None, errorText = Some ''backend down''\<rparr>\<rparr>"
         "\<lparr>candidateText = None, errorText = Some ''backend down''\<rparr>"]
  by (simp add: stringOr_def ok_def)

text \<open>
  Three responses 429 and a single response 500, both without an error message and with
  an empty status text (as over HTTP/2), end with the same response text, so the result
  does not tell a rate limit after retries from a server error. And a status 500 whose
  body does not parse is handled by the \<open>catch\<close> branch: it is retried with the backoff.
\<close>

theorem generateGeminiContent_failures_counterexample:
  "geminiResponse (generateGeminiContent
      (\<lambda>i. Some \<lparr>httpStatus = 429, statusText = [],
                  json = Some \<lparr>candidateText = None, errorText = None\<rparr>\<rparr>)
      \<lparr>geminiLoading = False, geminiResponse = None, showGeminiModal = False,
       attempts = 0, sleeps = []\<rparr>)
   = geminiResponse (generateGeminiContent
      (\<lambda>i. Some \<lparr>httpStatus = 500, statusText = [],
                  json = Some \<lparr>candidateText = None, errorText = None\<rparr>\<rparr>)
      \<lparr>geminiLoading = False, geminiResponse = None, showGeminiModal = False,
       attempts = 0, sleeps = []\<rparr>)
   \<and> attempts (generateGeminiContent
      (\<lambda>i. Some \<lparr>httpStatus = 500, statusText = ''Internal Server Error'', json = None\<rparr>)
      \<lparr>geminiLoading = False, geminiResponse = None, showGeminiModal = False,
       attempts = 0, sleeps = []\<rparr>) = 3
   \<and> sleeps (generateGeminiContent
      (\<lambda>i. Some \<lparr>httpStatus = 500, statusText = ''Internal Server Error'', json = None\<rparr>)
      \<lparr>geminiLoading = False, geminiResponse = None, showGeminiModal = False,
       attempts = 0, sleeps = []\<rparr>) = [1000, 2000]"
  by (simp add: generateGeminiContent_def retryLoop.simps maxRetries_def ok_def stringOr_def Let_def)

section \<open>Verified properties: import of common names\<close>

lemma split_str_nonempty: "split_str sep s \<noteq> []"
  by (induction s) (auto split: list.splits)

lemma split_str_first: "hd (split_str sep s) = takeWhile (\<lambda>c. c \<noteq> sep) s"
  by (induction s) (auto split: list.splits simp: split_str_nonempty)

lemma split_str_length: "1 < length (split_str sep s) \<longleftrightarrow> sep \<in> set s"
proof (induction s)
  case Nil
  then show ?case by simp
next
  case (Cons c cs)
  then show ?case
    using split_str_nonempty [of sep cs]
    by (cases "split_str sep cs") auto
qed

lemma lineName_first_field:
  "lineName line =
     trim (takeWhile (\<lambda>c. c \<noteq> (if CHR 0x09 \<in> set line then CHR 0x09 else CHR '','')) line)"
proof -
  have "\<And>sep. (case split_str sep line of [] \<Rightarrow> [] | v # _ \<Rightarrow> trim v)
               = trim (takeWhile (\<lambda>c. c \<noteq> sep) line)"
    using split_str_first [of _ line] split_str_nonempty [of _ line]
    by (simp split: list.split) (metis list.sel(1))
  then show ?thesis
    using split_str_length [of "CHR 0x09" line]
    by (auto simp add: lineName_def Let_def)
qed

lemma fold_importLine:
  "fold importLine ls (ns, sc, ec) =
     (fold Set_add (filter (\<lambda>n. n \<noteq> []) (map lineName ls)) ns,
      sc + length (filter (\<lambda>l. lineName l \<noteq> []) ls),
      ec + length (filter (\<lambda>l. lineName l = []) ls))"
  by (induction ls arbitrary: ns sc ec) (simp_all add: importLine_def Let_def)

lemma set_fold_Set_add: "set (fold Set_add xs acc) = set acc \<union> set xs"
  by (induction xs arbitrary: acc) (auto simp: Set_add_def)

lemma distinct_fold_Set_add: "distinct acc \<Longrightarrow> distinct (fold Set_add xs acc)"
  by (induction xs arbitrary: acc) (auto simp: Set_add_def)

lemma set_Set_of: "set (Set_of xs) = set xs"
  by (simp add: Set_of_def set_fold_Set_add)

lemma distinct_Set_of: "distinct (Set_of xs)"
  by (simp add: Set_of_def distinct_fold_Set_add)

lemma extractNames_eq:
  "extractNames raw =
     (Set_of (filter (\<lambda>n. n \<noteq> []) (map lineName (split_str CHR 0x0A (trim raw)))),
      length (filter (\<lambda>l. lineName l \<noteq> []) (split_str CHR 0x0A (trim raw))),
      length (filter (\<lambda>l. lineName l = []) (split_str CHR 0x0A (trim raw))))"
  by (simp add: extractNames_def fold_importLine Set_of_def)


lemma batchSet_map_add: "batchSet n m = m ++ [sanitizeDocId n \<mapsto> n]"
  by (simp add: batchSet_def)

lemma commitNames_map_of:
  "commitNames ns m = m ++ map_of (rev (map (\<lambda>n. (sanitizeDocId n, n)) ns))"
proof (induction ns arbitrary: m)
  case Nil
  then show ?case by (simp add: commitNames_def)
next
  case (Cons n ns)
  have "commitNames (n # ns) m = commitNames ns (batchSet n m)"
    by (simp add: commitNames_def)
  also have "\<dots> = batchSet n m ++ map_of (rev (map (\<lambda>n. (sanitizeDocId n, n)) ns))"
    by (rule Cons.IH)
  also have "\<dots> = m ++ ([sanitizeDocId n \<mapsto> n] ++ map_of (rev (map (\<lambda>n. (sanitizeDocId n, n)) ns)))"
    unfolding batchSet_map_add by (rule map_add_assoc [symmetric])
  also have "[sanitizeDocId n \<mapsto> n] ++ map_of (rev (map (\<lambda>n. (sanitizeDocId n, n)) ns))
      = map_of (rev (map (\<lambda>n. (sanitizeDocId n, n)) (n # ns)))"
    by (simp add: map_of_append)
  finally show ?case .
qed

lemma map_add_twice: "(m ++ g) ++ g = m ++ g"
  by (rule ext) (simp add: map_add_def split: option.split)

lemma commitNames_idem: "commitNames ns (commitNames ns m) = commitNames ns m"
  by (simp only: commitNames_map_of map_add_twice)

lemma urgentEffect_other_fields:
  "errorMessage (urgentEffect prev st) = errorMessage st"
  "loading (urgentEffect prev st) = loading st"
  "importData (urgentEffect prev st) = importData st"
  "urgentItems (urgentEffect prev st) = urgentItems st"
  "items (urgentEffect prev st) = items st"
  by (simp_all add: urgentEffect_def)

lemma handleImport_committed:
  assumes "\<not> notReady st" and "trim (importData st) \<noteq> []"
  shows "snd (handleImport True (st, sto))
           = sto\<lparr>common_names := commitNames (fst (extractNames (importData st))) (common_names sto)\<rparr>"
    and "errorMessage (fst (handleImport True (st, sto)))
           = Some (MsgImportCompleted (length (fst (extractNames (importData st))))
                     (snd (snd (extractNames (importData st)))))"
  using assms
  by (simp_all add: handleImport_def Let_def urgentEffect_other_fields split: prod.split)

lemma handleImport_blank:
  assumes "trim (importData st) = []"
  shows "snd (handleImport c (st, sto)) = sto"
  using assms by (simp add: handleImport_def Let_def)

text \<open>
  C4. The text "Milk", "Milk", an empty line, "Cheese" gives the two names Milk and Cheese,
  three accepted lines and one rejected line. In general the name of a line is its first
  field, split on TAB when the line contains one and on comma otherwise, trimmed; the
  names to save are the non-empty names of the lines of the trimmed text, each once, in
  order of first occurrence; the rejected count is the number of lines whose name is
  empty; and a committed import of a non-blank text by a ready session writes exactly
  these names and reports their number and the rejected count.
\<close>

theorem extractNames_reconciles:
  "extractNames (''Milk'' @ [CHR 0x0A] @ ''Milk'' @ [CHR 0x0A, CHR 0x0A] @ ''Cheese'')
     = ([''Milk'', ''Cheese''], 3, 1)
   \<and> lineName line
       = trim (takeWhile (\<lambda>c. c \<noteq> (if CHR 0x09 \<in> set line then CHR 0x09 else CHR '','')) line)
   \<and> fst (extractNames raw)
       = Set_of (filter (\<lambda>n. n \<noteq> []) (map lineName (split_str CHR 0x0A (trim raw))))
   \<and> distinct (fst (extractNames raw))
   \<and> set (fst (extractNames raw))
       = {n. n \<noteq> [] \<and> n \<in> lineName ` set (split_str CHR 0x0A (trim raw))}
   \<and> snd (snd (extractNames raw))
       = length (filter (\<lambda>l. lineName l = []) (split_str CHR 0x0A (trim raw)))
   \<and> (\<not> notReady st \<and> trim (importData st) \<noteq> []
      \<longrightarrow> snd (handleImport True (st, sto))
            = sto\<lparr>common_names :=
                    commitNames (fst (extractNames (importData st))) (common_names sto)\<rparr>
        \<and> errorMessage (fst (handleImport True (st, sto)))
            = Some (MsgImportCompleted (length (fst (extractNames (importData st))))
                      (snd (snd (extractNames (importData st))))))"
proof -
  have ex: "extractNames (''Milk'' @ [CHR 0x0A] @ ''Milk'' @ [CHR 0x0A, CHR 0x0A] @ ''Cheese'')
     = ([''Milk'', ''Cheese''], 3, 1)"
    by (simp add: extractNames_def trim_def isWhiteSpace_def importLine_def lineName_def
          Set_add_def Let_def)
  have s: "set (fst (extractNames raw))
       = {n. n \<noteq> [] \<and> n \<in> lineName ` set (split_str CHR 0x0A (trim raw))}"
    by (auto simp add: extractNames_eq set_Set_of)
  show ?thesis
    using ex s lineName_first_field [of line] handleImport_committed [of st sto]
    by (simp add: extractNames_eq distinct_Set_of)
qed

text \<open>The example, imported into an empty collection.\<close>

theorem extractNames_reconciles_witness:
  "\<not> notReady (initialState\<lparr>db := True, userId := Some ''u1'',
        importData := ''Milk'' @ [CHR 0x0A] @ ''Milk'' @ [CHR 0x0A, CHR 0x0A] @ ''Cheese''\<rparr>)
   \<and> common_names (snd (handleImport True
        (initialState\<lparr>db := True, userId := Some ''u1'',
           importData := ''Milk'' @ [CHR 0x0A] @ ''Milk'' @ [CHR 0x0A, CHR 0x0A] @ ''Cheese''\<rparr>,
         \<lparr>stock_items = [], common_names = Map.empty\<rparr>)))
       = [''Milk'' \<mapsto> ''Milk'', ''Cheese'' \<mapsto> ''Cheese'']
   \<and> errorMessage (fst (handleImport True
        (initialState\<lparr>db := True, userId := Some ''u1'',
           importData := ''Milk'' @ [CHR 0x0A] @ ''Milk'' @ [CHR 0x0A, CHR 0x0A] @ ''Cheese''\<rparr>,
         \<lparr>stock_items = [], common_names = Map.empty\<rparr>)))
       = Some (MsgImportCompleted 2 1)"
  using extractNames_reconciles
    [of "[]" "[]" "initialState\<lparr>db := True, userId := Some ''u1'',
           importData := ''Milk'' @ [CHR 0x0A] @ ''Milk'' @ [CHR 0x0A, CHR 0x0A] @ ''Cheese''\<rparr>"
        "\<lparr>stock_items = [], common_names = Map.empty\<rparr>"]
  by (simp add: notReady_def initialState_def trim_def isWhiteSpace_def commitNames_def
        batchSet_def sanitizeDocId_def)

lemma dom_commitNames: "dom (commitNames ns m) = dom m \<union> sanitizeDocId ` set ns"
  by (auto simp add: commitNames_map_of dom_map_of_conv_image_fst image_image)


lemma commitNames_payload:
  assumes "n \<in> set ns"
  shows "\<exists>n' \<in> set ns. sanitizeDocId n' = sanitizeDocId n
            \<and> commitNames ns m (sanitizeDocId n) = Some n'"
proof -
  let ?ps = "rev (map (\<lambda>n. (sanitizeDocId n, n)) ns)"
  have "sanitizeDocId n \<in> fst ` set ?ps"
    using assms by force
  then obtain n' where s: "map_of ?ps (sanitizeDocId n) = Some n'"
    by (metis domD dom_map_of_conv_image_fst)
  then have "(sanitizeDocId n, n') \<in> set ?ps"
    by (rule map_of_SomeD)
  then have "n' \<in> set ns" "sanitizeDocId n' = sanitizeDocId n"
    by auto
  moreover have "commitNames ns m (sanitizeDocId n) = Some n'"
    using s by (simp add: commitNames_map_of map_add_def)
  ultimately show ?thesis by blast
qed

lemma commitNames_other:
  assumes "k \<notin> sanitizeDocId ` set ns"
  shows "commitNames ns m k = m k"
proof -
  have "fst ` set (rev (map (\<lambda>n. (sanitizeDocId n, n)) ns)) = sanitizeDocId ` set ns"
    by (simp add: image_image)
  then have "k \<notin> dom (map_of (rev (map (\<lambda>n. (sanitizeDocId n, n)) ns)))"
    using assms by (simp only: dom_map_of_conv_image_fst) simp
  then show ?thesis
    by (simp add: commitNames_map_of map_add_def domIff split: option.split)
qed

lemma sanitizeDocId_no_slash: "CHR ''/'' \<notin> set (sanitizeDocId nm)"
  by (auto simp add: sanitizeDocId_def)

text \<open>
  C5. The import is idempotent. Each name is written under its sanitised identifier, in
  which every slash is replaced, with the name as payload: the keys of the collection
  grow by exactly the sanitised names, the entry under the identifier of a name holds a
  name of the text with that identifier, and every other entry is left as it was.
  Writing the names of a text twice gives the same collection as writing them once, and
  so does running a committed import twice on the same text.
\<close>

theorem handleImport_idempotent:
  "commitNames (fst (extractNames raw)) (commitNames (fst (extractNames raw)) m)
     = commitNames (fst (extractNames raw)) m
   \<and> dom (commitNames (fst (extractNames raw)) m)
       = dom m \<union> sanitizeDocId ` set (fst (extractNames raw))
   \<and> (n \<in> set (fst (extractNames raw))
      \<longrightarrow> (\<exists>n' \<in> set (fst (extractNames raw)). sanitizeDocId n' = sanitizeDocId n
             \<and> commitNames (fst (extractNames raw)) m (sanitizeDocId n) = Some n'))
   \<and> (k \<notin> sanitizeDocId ` set (fst (extractNames raw))
      \<longrightarrow> commitNames (fst (extractNames raw)) m k = m k)
   \<and> CHR ''/'' \<notin> set (sanitizeDocId n)
   \<and> (\<not> notReady st \<and> \<not> notReady st' \<and> importData st' = importData st
      \<longrightarrow> snd (handleImport True (st', snd (handleImport True (st, sto))))
            = snd (handleImport True (st, sto)))"
proof -
  have "snd (handleImport True (st', snd (handleImport True (st, sto))))
            = snd (handleImport True (st, sto))"
    if h: "\<not> notReady st \<and> \<not> notReady st' \<and> importData st' = importData st"
  proof (cases "trim (importData st) = []")
    case True
    then show ?thesis using h by (simp add: handleImport_blank)
  next
    case False
    then show ?thesis
      using h handleImport_committed(1) [of st sto]
        handleImport_committed(1) [of st' "snd (handleImport True (st, sto))"]
      by (simp add: commitNames_idem)
  qed
  then show ?thesis
    using commitNames_payload [of n "fst (extractNames raw)" m]
      commitNames_other [of k "fst (extractNames raw)" m]
    by (simp add: commitNames_idem dom_commitNames sanitizeDocId_no_slash)
qed

text \<open>Two names that share an identifier, imported twice over an existing entry.\<close>

theorem handleImport_idempotent_witness:
  "\<not> notReady (initialState\<lparr>db := True, userId := Some ''u1'', importData := ''a/b,x'' @ [CHR 0x0A] @ ''a_b''\<rparr>)
   \<and> common_names (snd (handleImport True
        (initialState\<lparr>db := True, userId := Some ''u1'', importData := ''a/b,x'' @ [CHR 0x0A] @ ''a_b''\<rparr>,
         \<lparr>stock_items = [], common_names = [''old'' \<mapsto> ''old'']\<rparr>)))
       = [''old'' \<mapsto> ''old'', ''a_b'' \<mapsto> ''a_b'']
   \<and> snd (handleImport True
        (initialState\<lparr>db := True, userId := Some ''u1'', importData := ''a/b,x'' @ [CHR 0x0A] @ ''a_b''\<rparr>,
         snd (handleImport True
          (initialState\<lparr>db := True, userId := Some ''u1'', importData := ''a/b,x'' @ [CHR 0x0A] @ ''a_b''\<rparr>,
           \<lparr>stock_items = [], common_names = [''old'' \<mapsto> ''old'']\<rparr>))))
       = snd (handleImport True
          (initialState\<lparr>db := True, userId := Some ''u1'', importData := ''a/b,x'' @ [CHR 0x0A] @ ''a_b''\<rparr>,
           \<lparr>stock_items = [], common_names = [''old'' \<mapsto> ''old'']\<rparr>))"
  using handleImport_idempotent
    [where raw = "[]" and m = Map.empty and n = "[]" and k = "[]"
       and st = "initialState\<lparr>db := True, userId := Some ''u1'', importData := ''a/b,x'' @ [CHR 0x0A] @ ''a_b''\<rparr>"
       and st' = "initialState\<lparr>db := True, userId := Some ''u1'', importData := ''a/b,x'' @ [CHR 0x0A] @ ''a_b''\<rparr>"
       and sto = "\<lparr>stock_items = [], common_names = [''old'' \<mapsto> ''old'']\<rparr>"]
  by (simp add: notReady_def initialState_def handleImport_def Let_def extractNames_def trim_def
        isWhiteSpace_def importLine_def lineName_def Set_add_def commitNames_def batchSet_def
        sanitizeDocId_def urgentEffect_def)

section \<open>Verified properties: form input and submission\<close>

lemma roundToDouble_positive:
  assumes "roundToDouble m = Some d" and "0 < m"
  shows "0 < d"
proof (cases "m < 2 ^ 53")
  case True
  then show ?thesis using assms by (simp add: roundToDouble_def)
next
  case False
  then have big: "2 ^ 53 \<le> m" by simp
  have "53 < floorlog 2 m"
    using floorlog_ge_SucI [of 2 53 m] big by simp
  then have e: "floorlog 2 m - 53 \<le> floorlog 2 m - 1" by simp
  have "(2::nat) ^ (floorlog 2 m - 53) \<le> 2 ^ (floorlog 2 m - 1)"
    using e by (simp add: power_increasing)
  also have "\<dots> \<le> m"
    using floorlog_bounds [of m 2] assms(2) by simp
  finally have "0 < m div 2 ^ (floorlog 2 m - 53)"
    by (simp add: div_greater_zero_iff)
  then show ?thesis
    using assms False by (auto simp add: roundToDouble_def Let_def split: if_splits)
qed

lemma roundToDouble_small: "m < 2 ^ 53 \<Longrightarrow> roundToDouble m = Some m"
  by (simp add: roundToDouble_def)

lemma roundToDouble_overflow: "roundToDouble m = None \<longleftrightarrow> 2 ^ 1024 - 2 ^ 970 \<le> m"
  by (auto simp add: roundToDouble_def Let_def)

lemma floorlog_2_eq:
  assumes "2 ^ (w - 1) \<le> m" and "m < 2 ^ w" and "0 < w"
  shows "floorlog 2 m = w"
proof -
  have "floorlog 2 m \<le> w"
    using assms(2) by (simp add: floorlog_le_iff)
  moreover have "w \<le> floorlog 2 m"
    using assms(1) by (intro floorlog_geI) simp_all
  ultimately show ?thesis by simp
qed

lemma digitRun_empty: "digitRun v = [] \<Longrightarrow> digitsValue (digitRun v) = 0"
  by (simp add: digitsValue_def)

lemma coerced_one:
  assumes "isNegative v \<or> digitsValue (digitRun v) = 0"
  shows "Math_max 1 (numberOr (parseInt v) 1) = Finite 1"
proof (cases "digitRun v = []")
  case True
  then show ?thesis by (simp add: parseInt_def numberOr_def Math_max_def)
next
  case False
  show ?thesis
  proof (cases "roundToDouble (digitsValue (digitRun v))")
    case None
    then have "0 < digitsValue (digitRun v)"
      by (simp add: roundToDouble_overflow)
    then have "isNegative v" using assms by simp
    then show ?thesis
      using False None by (simp add: parseInt_def numberOr_def Math_max_def)
  next
    case (Some d)
    show ?thesis
    proof (cases "isNegative v")
      case True
      then show ?thesis
        using False Some by (simp add: parseInt_def numberOr_def Math_max_def)
    next
      case neg: False
      then have "digitsValue (digitRun v) = 0" using assms by simp
      then have "d = 0" using Some by (simp add: roundToDouble_def)
      then show ?thesis
        using False Some neg by (simp add: parseInt_def numberOr_def Math_max_def)
    qed
  qed
qed

lemma coerced_rounded:
  assumes "\<not> isNegative v" and "1 \<le> digitsValue (digitRun v)"
    and "roundToDouble (digitsValue (digitRun v)) = Some d"
  shows "Math_max 1 (numberOr (parseInt v) 1) = Finite (int d) \<and> 1 \<le> d"
proof -
  have ne: "digitRun v \<noteq> []"
    using assms(2) digitRun_empty [of v] by auto
  have d: "0 < d"
    using roundToDouble_positive [OF assms(3)] assms(2) by simp
  then show ?thesis
    using assms ne by (simp add: parseInt_def numberOr_def Math_max_def)
qed

lemma coerced_infinite:
  assumes "\<not> isNegative v" and "2 ^ 1024 - 2 ^ 970 \<le> digitsValue (digitRun v)"
  shows "Math_max 1 (numberOr (parseInt v) 1) = PosInfinity"
proof -
  have ne: "digitRun v \<noteq> []"
    using assms(2) digitRun_empty [of v] by auto
  have "roundToDouble (digitsValue (digitRun v)) = None"
    using assms(2) by (simp add: roundToDouble_overflow)
  then show ?thesis
    using assms(1) ne by (simp add: parseInt_def numberOr_def Math_max_def)
qed

lemma coerced_range:
  "Math_max 1 (numberOr n 1) = PosInfinity \<or> (\<exists>k\<ge>1. Math_max 1 (numberOr n 1) = Finite k)"
  by (cases n) (simp_all add: numberOr_def Math_max_def)

lemma changeField_counts:
  "quantity (newItem (handleInputChange FieldQuantity v st)) = Math_max 1 (numberOr (parseInt v) 1)"
  "alarmDays (newItem (handleInputChange FieldAlarmDays v st)) = Math_max 1 (numberOr (parseInt v) 1)"
  "editingItem st = Some e \<Longrightarrow>
     \<exists>e'. editingItem (handleEditChange FieldQuantity v st) = Some e'
         \<and> quantity e' = Math_max 1 (numberOr (parseInt v) 1)"
  "editingItem st = Some e \<Longrightarrow>
     \<exists>e'. editingItem (handleEditChange FieldAlarmDays v st) = Some e'
         \<and> alarmDays e' = Math_max 1 (numberOr (parseInt v) 1)"
  by (simp_all add: handleInputChange_def handleEditChange_def changeField_def)

lemma addItem_rejects:
  assumes "name (newItem st) = [] \<or> expirationDate (newItem st) = []
           \<or> numberLeZero (quantity (newItem st)) \<or> numberLeZero (alarmDays (newItem st))"
  shows "snd (addItem newId createdAt added written (st, sto)) = sto"
    and "\<not> notReady st \<Longrightarrow>
           errorMessage (fst (addItem newId createdAt added written (st, sto))) = Some MsgCompleteRequired"
    and "notReady st \<Longrightarrow> fst (addItem newId createdAt added written (st, sto)) = st"
  using assms by (simp_all add: addItem_def Let_def)

lemma updateItem_rejects:
  assumes "editingItem st = Some e"
    and "name e = [] \<or> expirationDate e = [] \<or> numberLeZero (quantity e)
         \<or> numberLeZero (alarmDays e)"
  shows "snd (updateItem updated written (st, sto)) = sto"
    and "\<not> notReady st \<Longrightarrow>
           errorMessage (fst (updateItem updated written (st, sto))) = Some MsgCompleteEdit"
    and "notReady st \<Longrightarrow> fst (updateItem updated written (st, sto)) = st"
  using assms by (simp_all add: updateItem_def Let_def)

lemma digitsValue_snoc: "digitsValue (ds @ [c]) = 10 * digitsValue ds + (of_char c - 48)"
  by (simp add: digitsValue_def)

lemma digitsValue_nines: "digitsValue (replicate n (CHR ''9'')) = 10 ^ n - 1"
proof (induction n)
  case 0
  then show ?case by (simp add: digitsValue_def)
next
  case (Suc n)
  have "replicate (Suc n) (CHR ''9'') = replicate n (CHR ''9'') @ [CHR ''9'']"
    by (simp add: replicate_append_same)
  then have "digitsValue (replicate (Suc n) (CHR ''9'')) = 10 * (10 ^ n - 1) + 9"
    using Suc by (simp add: digitsValue_snoc)
  also have "\<dots> = 10 ^ Suc n - 1"
    by (simp add: algebra_simps)
  finally show ?case .
qed

lemma digitRun_nines:
  "0 < n \<Longrightarrow> digitRun (replicate n (CHR ''9'')) = replicate n (CHR ''9'')"
  "0 < n \<Longrightarrow> \<not> isNegative (replicate n (CHR ''9''))"
  by (cases n; simp add: digitRun_def isNegative_def isWhiteSpace_def isDigit_def
        takeWhile_replicate)+

text \<open>
  C7, as the code has it. Whatever text is entered into the quantity or the alarm-days
  input of the creation form or of the edit form, the value kept in the draft is a number
  of at least 1 and never NaN. It is 1 when the text has no digits to read, or reads as 0
  or as a negative number; it is the integer the digits denote when that is positive and
  below \<open>2^53\<close>; for longer runs of digits it is the nearest double, still an integer of at
  least 1, and it is \<open>Infinity\<close> when the digits denote a value beyond the doubles. A
  submission whose name or date is empty, or whose quantity or alarm days are not
  positive, writes nothing to the store; \<open>addItem\<close> and \<open>updateItem\<close> set their validation
  message when the store handle and the user are available, and otherwise return at once
  and change neither the state nor the store.
\<close>

theorem draft_counts_validated:
  "(isNegative v \<or> digitsValue (digitRun v) = 0
      \<longrightarrow> quantity (newItem (handleInputChange FieldQuantity v st)) = Finite 1)
   \<and> (\<not> isNegative v \<and> 1 \<le> digitsValue (digitRun v) \<and> digitsValue (digitRun v) < 2 ^ 53
      \<longrightarrow> quantity (newItem (handleInputChange FieldQuantity v st))
            = Finite (int (digitsValue (digitRun v))))
   \<and> (\<forall>d. \<not> isNegative v \<and> 1 \<le> digitsValue (digitRun v)
           \<and> roundToDouble (digitsValue (digitRun v)) = Some d
      \<longrightarrow> quantity (newItem (handleInputChange FieldQuantity v st)) = Finite (int d) \<and> 1 \<le> d)
   \<and> (\<not> isNegative v \<and> 2 ^ 1024 - 2 ^ 970 \<le> digitsValue (digitRun v)
      \<longrightarrow> quantity (newItem (handleInputChange FieldQuantity v st)) = PosInfinity)
   \<and> (quantity (newItem (handleInputChange FieldQuantity v st)) = PosInfinity
      \<or> (\<exists>n\<ge>1. quantity (newItem (handleInputChange FieldQuantity v st)) = Finite n))
   \<and> alarmDays (newItem (handleInputChange FieldAlarmDays v st))
       = quantity (newItem (handleInputChange FieldQuantity v st))
   \<and> (editingItem st = Some e \<longrightarrow>
        (\<exists>e'. editingItem (handleEditChange FieldQuantity v st) = Some e'
             \<and> quantity e' = quantity (newItem (handleInputChange FieldQuantity v st)))
        \<and> (\<exists>e'. editingItem (handleEditChange FieldAlarmDays v st) = Some e'
             \<and> alarmDays e' = quantity (newItem (handleInputChange FieldQuantity v st))))
   \<and> (name (newItem st) = [] \<or> expirationDate (newItem st) = []
        \<or> numberLeZero (quantity (newItem st)) \<or> numberLeZero (alarmDays (newItem st))
      \<longrightarrow> snd (addItem newId createdAt added written (st, sto)) = sto
        \<and> (if notReady st then fst (addItem newId createdAt added written (st, sto)) = st
            else errorMessage (fst (addItem newId createdAt added written (st, sto)))
                   = Some MsgCompleteRequired))
   \<and> (editingItem st = Some e
        \<and> (name e = [] \<or> expirationDate e = [] \<or> numberLeZero (quantity e)
            \<or> numberLeZero (alarmDays e))
      \<longrightarrow> snd (updateItem updated written (st, sto)) = sto
        \<and> (if notReady st then fst (updateItem updated written (st, sto)) = st
            else errorMessage (fst (updateItem updated written (st, sto)))
                   = Some MsgCompleteEdit))"
proof -
  have small: "quantity (newItem (handleInputChange FieldQuantity v st))
            = Finite (int (digitsValue (digitRun v)))"
    if "\<not> isNegative v \<and> 1 \<le> digitsValue (digitRun v) \<and> digitsValue (digitRun v) < 2 ^ 53"
    using that coerced_rounded [of v "digitsValue (digitRun v)"]
    by (simp add: changeField_counts(1) roundToDouble_small)
  have add: "snd (addItem newId createdAt added written (st, sto)) = sto
        \<and> (if notReady st then fst (addItem newId createdAt added written (st, sto)) = st
            else errorMessage (fst (addItem newId createdAt added written (st, sto)))
                   = Some MsgCompleteRequired)"
    if "name (newItem st) = [] \<or> expirationDate (newItem st) = []
        \<or> numberLeZero (quantity (newItem st)) \<or> numberLeZero (alarmDays (newItem st))"
    using addItem_rejects [OF that, of newId createdAt added written sto] by simp
  have upd: "snd (updateItem updated written (st, sto)) = sto
        \<and> (if notReady st then fst (updateItem updated written (st, sto)) = st
            else errorMessage (fst (updateItem updated written (st, sto)))
                   = Some MsgCompleteEdit)"
    if "editingItem st = Some e
        \<and> (name e = [] \<or> expirationDate e = [] \<or> numberLeZero (quantity e)
            \<or> numberLeZero (alarmDays e))"
    using updateItem_rejects [of st e updated written sto] that by simp
  show ?thesis
    unfolding changeField_counts(1,2)
    using coerced_one [of v] coerced_rounded [of v] coerced_infinite [of v]
      coerced_range [of "parseInt v"] small [unfolded changeField_counts(1)]
      changeField_counts(3,4) [of st e v] add upd
    by (intro conjI impI allI) blast+
qed

text \<open>A ready session: "-3" and "abc" are coerced to 1, "42" is kept and
  "9007199254740993", just above \<open>2^53\<close>, is kept as the nearest double; the empty creation
  form and an edit whose name was cleared are rejected with their message and no write.\<close>

theorem draft_counts_validated_witness:
  "quantity (newItem (handleInputChange FieldQuantity ''-3''
       (initialState\<lparr>db := True, userId := Some ''u1'',
          editingItem := Some (exampleItem ''a'' [])\<rparr>))) = Finite 1
   \<and> alarmDays (newItem (handleInputChange FieldAlarmDays ''abc''
       (initialState\<lparr>db := True, userId := Some ''u1'',
          editingItem := Some (exampleItem ''a'' [])\<rparr>))) = Finite 1
   \<and> quantity (newItem (handleInputChange FieldQuantity ''42''
       (initialState\<lparr>db := True, userId := Some ''u1'',
          editingItem := Some (exampleItem ''a'' [])\<rparr>))) = Finite 42
   \<and> quantity (newItem (handleInputChange FieldQuantity ''9007199254740993''
       (initialState\<lparr>db := True, userId := Some ''u1'',
          editingItem := Some (exampleItem ''a'' [])\<rparr>))) = Finite 9007199254740992
   \<and> name (newItem (initialState\<lparr>db := True, userId := Some ''u1'',
          editingItem := Some (exampleItem ''a'' [])\<rparr>)) = []
   \<and> snd (addItem ''id1'' ''2025-01-07T01:00:00.000Z'' True True
        (initialState\<lparr>db := True, userId := Some ''u1'',
           editingItem := Some (exampleItem ''a'' [])\<rparr>,
         \<lparr>stock_items = [], common_names = Map.empty\<rparr>))
       = \<lparr>stock_items = [], common_names = Map.empty\<rparr>
   \<and> errorMessage (fst (addItem ''id1'' ''2025-01-07T01:00:00.000Z'' True True
        (initialState\<lparr>db := True, userId := Some ''u1'',
           editingItem := Some (exampleItem ''a'' [])\<rparr>,
         \<lparr>stock_items = [], common_names = Map.empty\<rparr>)))
       = Some MsgCompleteRequired
   \<and> snd (updateItem True True
        (initialState\<lparr>db := True, userId := Some ''u1'',
           editingItem := Some (exampleItem ''a'' [])\<rparr>,
         \<lparr>stock_items = [], common_names = Map.empty\<rparr>))
       = \<lparr>stock_items = [], common_names = Map.empty\<rparr>
   \<and> errorMessage (fst (updateItem True True
        (initialState\<lparr>db := True, userId := Some ''u1'',
           editingItem := Some (exampleItem ''a'' [])\<rparr>,
         \<lparr>stock_items = [], common_names = Map.empty\<rparr>)))
       = Some MsgCompleteEdit"
proof -
  have n: "isNegative ''-3''" "\<not> isNegative ''42''" "digitsValue (digitRun ''42'') = 42"
    by (simp_all add: isNegative_def digitRun_def digitsValue_def isWhiteSpace_def isDigit_def)
  have a: "alarmDays (newItem (handleInputChange FieldAlarmDays ''abc''
       (initialState\<lparr>db := True, userId := Some ''u1'',
          editingItem := Some (exampleItem ''a'' [])\<rparr>))) = Finite 1"
    by (simp add: handleInputChange_def changeField_def parseInt_def digitRun_def
          isWhiteSpace_def isDigit_def numberOr_def Math_max_def)
  have "floorlog 2 9007199254740993 = 54"
    by (rule floorlog_2_eq) simp_all
  then have r: "roundToDouble 9007199254740993 = Some 9007199254740992"
    by (simp add: roundToDouble_def Let_def)
  have b: "quantity (newItem (handleInputChange FieldQuantity ''9007199254740993''
       (initialState\<lparr>db := True, userId := Some ''u1'',
          editingItem := Some (exampleItem ''a'' [])\<rparr>))) = Finite 9007199254740992"
    by (simp add: handleInputChange_def changeField_def parseInt_def digitRun_def
          isNegative_def digitsValue_def isWhiteSpace_def isDigit_def numberOr_def
          Math_max_def r)
  show ?thesis
    using n a b
      draft_counts_validated
        [where v = "''-3''"
           and st = "initialState\<lparr>db := True, userId := Some ''u1'',
                       editingItem := Some (exampleItem ''a'' [])\<rparr>"
           and sto = "\<lparr>stock_items = [], common_names = Map.empty\<rparr>"
           and newId = "''id1''" and createdAt = "''2025-01-07T01:00:00.000Z''"
           and added = True and written = True and updated = True
           and e = "exampleItem ''a'' []"]
      draft_counts_validated
        [where v = "''42''"
           and st = "initialState\<lparr>db := True, userId := Some ''u1'',
                       editingItem := Some (exampleItem ''a'' [])\<rparr>"
           and sto = "\<lparr>stock_items = [], common_names = Map.empty\<rparr>"
           and newId = "''id1''" and createdAt = "''2025-01-07T01:00:00.000Z''"
           and added = True and written = True and updated = True
           and e = "exampleItem ''a'' []"]
    by (simp add: initialState_def emptyDraft_def exampleItem_def notReady_def)
qed

text \<open>
  Four hundred nines typed into the quantity or the alarm-days input denote a value beyond
  the doubles: \<open>parseInt\<close> gives \<open>Infinity\<close>, which \<open>|| 1\<close> and \<open>Math.max(1, _)\<close> keep, so the
  draft holds \<open>Infinity\<close> and not an integer. And while the store handle is missing, the
  submission of the empty creation form returns before the validation and sets no message.
\<close>

theorem draft_counts_validated_counterexample:
  "quantity (newItem (handleInputChange FieldQuantity (replicate 400 (CHR ''9'')) initialState))
     = PosInfinity
   \<and> alarmDays (newItem (handleInputChange FieldAlarmDays (replicate 400 (CHR ''9'')) initialState))
     = PosInfinity
   \<and> name (newItem initialState) = []
   \<and> errorMessage (fst (addItem ''id1'' ''2025-01-07T01:00:00.000Z'' True True
        (initialState, \<lparr>stock_items = [], common_names = Map.empty\<rparr>))) = None"
proof -
  have r: "digitRun (replicate 400 (CHR ''9'')) = replicate 400 (CHR ''9'')"
    by (rule digitRun_nines) simp
  have "(2::nat) ^ 1024 - 2 ^ 970 \<le> 10 ^ 400 - 1"
    by simp
  then have big: "(2::nat) ^ 1024 - 2 ^ 970 \<le> digitsValue (digitRun (replicate 400 (CHR ''9'')))"
    unfolding r digitsValue_nines .
  have "Math_max 1 (numberOr (parseInt (replicate 400 (CHR ''9''))) 1) = PosInfinity"
  proof (rule coerced_infinite)
    show "\<not> isNegative (replicate 400 (CHR ''9''))"
      by (rule digitRun_nines) simp
    show "2 ^ 1024 - 2 ^ 970 \<le> digitsValue (digitRun (replicate 400 (CHR ''9'')))"
      by (rule big)
  qed
  then show ?thesis
    by (simp add: changeField_counts addItem_def initialState_def emptyDraft_def notReady_def
          Let_def)
qed

section \<open>Verified properties: the sort\<close>

lemma set_sort_insert: "set (sort_insert cmp x xs) = insert x (set xs)"
  by (induction xs) auto

lemma set_js_sort: "set (js_sort cmp xs) = set xs"
  by (induction xs) (simp_all add: js_sort_def set_sort_insert)

lemma length_sort_insert: "length (sort_insert cmp x xs) = Suc (length xs)"
  by (induction xs) auto

lemma length_js_sort: "length (js_sort cmp xs) = length xs"
  by (induction xs) (simp_all add: js_sort_def length_sort_insert)

lemma distinct_sort_insert: "distinct (sort_insert cmp x xs) \<longleftrightarrow> x \<notin> set xs \<and> distinct xs"
  by (induction xs) (auto simp: set_sort_insert)

lemma distinct_js_sort: "distinct (js_sort cmp xs) \<longleftrightarrow> distinct xs"
proof (induction xs)
  case Nil
  then show ?case by (simp add: js_sort_def)
next
  case (Cons x xs)
  have "js_sort cmp (x # xs) = sort_insert cmp x (js_sort cmp xs)"
    by (simp add: js_sort_def)
  then show ?case
    using Cons by (simp add: distinct_sort_insert set_js_sort)
qed

lemma sorted_wrt_sort_insert:
  assumes tot: "\<And>a b. a \<in> S \<Longrightarrow> b \<in> S \<Longrightarrow> sortCompare cmp a b \<le> 0 \<or> sortCompare cmp b a \<le> 0"
    and tr: "\<And>a b c. a \<in> S \<Longrightarrow> b \<in> S \<Longrightarrow> c \<in> S \<Longrightarrow> sortCompare cmp a b \<le> 0
               \<Longrightarrow> sortCompare cmp b c \<le> 0 \<Longrightarrow> sortCompare cmp a c \<le> 0"
    and "x \<in> S" and "set xs \<subseteq> S"
    and "sorted_wrt (\<lambda>a b. sortCompare cmp a b \<le> 0) xs"
  shows "sorted_wrt (\<lambda>a b. sortCompare cmp a b \<le> 0) (sort_insert cmp x xs)"
  using assms(3-)
proof (induction xs)
  case Nil
  then show ?case by simp
next
  case (Cons y ys)
  show ?case
  proof (cases "sortCompare cmp x y \<le> 0")
    case True
    have "sortCompare cmp x z \<le> 0" if "z \<in> set ys" for z
      using that True Cons.prems tr [of x y z] by auto
    then show ?thesis using True Cons.prems by auto
  next
    case False
    then have "sortCompare cmp y x \<le> 0"
      using tot [of x y] Cons.prems by auto
    then show ?thesis
      using False Cons by (auto simp: set_sort_insert)
  qed
qed

lemma sorted_wrt_js_sort:
  assumes tot: "\<And>a b. a \<in> S \<Longrightarrow> b \<in> S \<Longrightarrow> sortCompare cmp a b \<le> 0 \<or> sortCompare cmp b a \<le> 0"
    and tr: "\<And>a b c. a \<in> S \<Longrightarrow> b \<in> S \<Longrightarrow> c \<in> S \<Longrightarrow> sortCompare cmp a b \<le> 0
               \<Longrightarrow> sortCompare cmp b c \<le> 0 \<Longrightarrow> sortCompare cmp a c \<le> 0"
    and "set xs \<subseteq> S"
  shows "sorted_wrt (\<lambda>a b. sortCompare cmp a b \<le> 0) (js_sort cmp xs)"
  using assms(3)
proof (induction xs)
  case Nil
  then show ?case by (simp add: js_sort_def)
next
  case (Cons x xs)
  have "sorted_wrt (\<lambda>a b. sortCompare cmp a b \<le> 0) (sort_insert cmp x (js_sort cmp xs))"
  proof (rule sorted_wrt_sort_insert [of S cmp])
    show "x \<in> S" using Cons.prems by simp
    show "set (js_sort cmp xs) \<subseteq> S" using Cons.prems by (simp add: set_js_sort)
    show "sorted_wrt (\<lambda>a b. sortCompare cmp a b \<le> 0) (js_sort cmp xs)"
      using Cons by simp
  qed (fact tot tr)+
  then show ?case by (simp add: js_sort_def)
qed

section \<open>Verified properties: the items projection\<close>

lemma fetchItems_sorted:
  assumes "list_all (\<lambda>d. getTime (data_expirationDate d) \<noteq> None) docs"
  shows "sortedByExpiration getTime (fetchItems getTime docs)"
proof -
  define S where "S = {i :: item. getTime (expirationDate i) \<noteq> None}"
  have sub: "set (map mapDoc docs) \<subseteq> S"
    using assms by (auto simp: S_def mapDoc_def list_all_iff)
  have cmp: "sortCompare (compareExpiration getTime) a b \<le> 0 \<longleftrightarrow>
        (case getTime (expirationDate a) of
           None \<Rightarrow> False
         | Some ta \<Rightarrow> (case getTime (expirationDate b) of None \<Rightarrow> False | Some tb \<Rightarrow> ta \<le> tb))"
    if "a \<in> S" "b \<in> S" for a b
    using that by (auto simp: S_def sortCompare_def compareExpiration_def)
  have "sorted_wrt (\<lambda>a b. sortCompare (compareExpiration getTime) a b \<le> 0)
          (js_sort (compareExpiration getTime) (map mapDoc docs))"
  proof (rule sorted_wrt_js_sort [of S, OF _ _ sub])
    fix a b assume "a \<in> S" "b \<in> S"
    then show "sortCompare (compareExpiration getTime) a b \<le> 0
             \<or> sortCompare (compareExpiration getTime) b a \<le> 0"
      by (auto simp: S_def sortCompare_def compareExpiration_def)
  next
    fix a b c assume "a \<in> S" "b \<in> S" "c \<in> S"
      "sortCompare (compareExpiration getTime) a b \<le> 0"
      "sortCompare (compareExpiration getTime) b c \<le> 0"
    then show "sortCompare (compareExpiration getTime) a c \<le> 0"
      by (auto simp: S_def sortCompare_def compareExpiration_def)
  qed
  then have "sorted_wrt (\<lambda>a b. case getTime (expirationDate a) of
                          None \<Rightarrow> False
                        | Some ta \<Rightarrow> (case getTime (expirationDate b) of None \<Rightarrow> False | Some tb \<Rightarrow> ta \<le> tb))
          (js_sort (compareExpiration getTime) (map mapDoc docs))"
  proof (rule sorted_wrt_mono_rel [rotated])
    fix a b
    assume "a \<in> set (js_sort (compareExpiration getTime) (map mapDoc docs))"
      and "b \<in> set (js_sort (compareExpiration getTime) (map mapDoc docs))"
      and le: "sortCompare (compareExpiration getTime) a b \<le> 0"
    then have "a \<in> S" "b \<in> S"
      using sub by (auto simp: set_js_sort)
    then show "case getTime (expirationDate a) of
                          None \<Rightarrow> False
                        | Some ta \<Rightarrow> (case getTime (expirationDate b) of None \<Rightarrow> False | Some tb \<Rightarrow> ta \<le> tb)"
      using cmp [of a b] le by simp
  qed
  then show ?thesis
    by (simp add: sortedByExpiration_def fetchItems_def)
qed

lemma urgentEffect_items: "items (urgentEffect prev st) = items st"
  by (simp add: urgentEffect_def)

lemma step_items:
  "items (step getTime e st) =
     (case e of StockSnapshot docs currentTime \<Rightarrow> fetchItems getTime docs | _ \<Rightarrow> items st)"
  by (simp add: step_def urgentEffect_items Let_def split: event.split)

lemma run_items_sorted:
  assumes "list_all (datesParse getTime) es" and "sortedByExpiration getTime (items st)"
  shows "sortedByExpiration getTime (items (run getTime es st))"
  using assms unfolding run_def
proof (induction es arbitrary: st)
  case Nil
  then show ?case by simp
next
  case (Cons e es)
  have "sortedByExpiration getTime (items (step getTime e st))"
    using Cons.prems fetchItems_sorted [of getTime]
    by (cases e) (simp_all add: step_items datesParse_def)
  then show ?case using Cons by simp
qed

text \<open>
  C10. After a snapshot of the stock subscription whose documents all carry a date that
  parses, the items held by the component are exactly the projected documents, in
  non-decreasing order of expiration time; and after any sequence of events with such
  snapshots, starting from the initial state, the items are in that order: every
  snapshot re-establishes the order and nothing else changes the items.
\<close>

theorem items_sorted_by_expiration:
  "(list_all (\<lambda>d. getTime (data_expirationDate d) \<noteq> None) docs
      \<longrightarrow> sortedByExpiration getTime (items (step getTime (StockSnapshot docs t) st))
        \<and> set (items (step getTime (StockSnapshot docs t) st)) = mapDoc ` set docs
        \<and> length (items (step getTime (StockSnapshot docs t) st)) = length docs)
   \<and> (list_all (datesParse getTime) es
      \<longrightarrow> sortedByExpiration getTime (items (run getTime es initialState)))"
proof -
  have "sortedByExpiration getTime (items initialState)"
    by (simp add: sortedByExpiration_def initialState_def)
  then show ?thesis
    using fetchItems_sorted [of getTime docs] run_items_sorted [of getTime es initialState]
    by (simp add: step_items fetchItems_def set_js_sort length_js_sort)
qed

text \<open>Two documents delivered in the wrong order come out ordered by date.\<close>

theorem items_sorted_by_expiration_witness:
  "list_all (datesParse exampleGetTime)
      [StockSnapshot [exampleDoc ''a'' ''Leche'' ''2025-01-10'',
                      exampleDoc ''b'' ''Queso'' ''2025-01-08''] exampleNow]
   \<and> map item_id (items (step exampleGetTime
        (StockSnapshot [exampleDoc ''a'' ''Leche'' ''2025-01-10'',
                        exampleDoc ''b'' ''Queso'' ''2025-01-08''] exampleNow)
        initialState)) = [''b'', ''a'']
   \<and> sortedByExpiration exampleGetTime (items (step exampleGetTime
        (StockSnapshot [exampleDoc ''a'' ''Leche'' ''2025-01-10'',
                        exampleDoc ''b'' ''Queso'' ''2025-01-08''] exampleNow)
        initialState))
   \<and> sortedByExpiration exampleGetTime (items (run exampleGetTime
        [StockSnapshot [exampleDoc ''a'' ''Leche'' ''2025-01-10'',
                        exampleDoc ''b'' ''Queso'' ''2025-01-08''] exampleNow]
        initialState))"
proof -
  have d: "list_all (\<lambda>d. exampleGetTime (data_expirationDate d) \<noteq> None)
      [exampleDoc ''a'' ''Leche'' ''2025-01-10'', exampleDoc ''b'' ''Queso'' ''2025-01-08'']"
    by (simp add: exampleGetTime_def exampleDoc_def)
  have i: "map item_id (items (step exampleGetTime
        (StockSnapshot [exampleDoc ''a'' ''Leche'' ''2025-01-10'',
                        exampleDoc ''b'' ''Queso'' ''2025-01-08''] exampleNow)
        initialState)) = [''b'', ''a'']"
    by (simp add: step_items fetchItems_def js_sort_def sortCompare_def compareExpiration_def
          mapDoc_def exampleGetTime_def exampleDoc_def)
  show ?thesis
    using d i items_sorted_by_expiration
      [where getTime = exampleGetTime
         and docs = "[exampleDoc ''a'' ''Leche'' ''2025-01-10'',
                      exampleDoc ''b'' ''Queso'' ''2025-01-08'']"
         and t = exampleNow and st = initialState
         and es = "[StockSnapshot [exampleDoc ''a'' ''Leche'' ''2025-01-10'',
                      exampleDoc ''b'' ''Queso'' ''2025-01-08''] exampleNow]"]
    by (simp add: datesParse_def)
qed

lemma first_category: "CATEGORIES ! 0 = ''General''" "''General'' \<in> set CATEGORIES"
  by (simp_all add: CATEGORIES_def)

lemma mapDoc_category_known:
  "storedCategoryKnown d \<Longrightarrow> category (mapDoc d) \<in> set CATEGORIES"
  by (auto simp add: storedCategoryKnown_def mapDoc_def stringOr_def first_category
        split: option.splits)

lemma normalizeCategory_member: "normalizeCategory cat \<in> set CATEGORIES"
proof (cases "find (\<lambda>c. toLowerCase c = toLowerCase (trim cat)) CATEGORIES")
  case None
  then show ?thesis by (simp add: normalizeCategory_def Let_def stringOr_def first_category)
next
  case (Some m)
  then have "m \<in> set CATEGORIES"
    by (auto simp: find_Some_iff)
  then show ?thesis
    using Some by (simp add: normalizeCategory_def Let_def stringOr_def first_category)
qed

lemma normalizeCategory_no_match:
  assumes "\<not> (\<exists>c \<in> set CATEGORIES. toLowerCase c = toLowerCase (trim cat))"
  shows "normalizeCategory cat = ''General''"
proof -
  have "find (\<lambda>c. toLowerCase c = toLowerCase (trim cat)) CATEGORIES = None"
    using assms by (simp add: find_None_iff)
  then show ?thesis by (simp add: normalizeCategory_def Let_def stringOr_def first_category)
qed

lemma normalizeCategory_fixes: "cat \<in> set CATEGORIES \<Longrightarrow> normalizeCategory cat = cat"
proof -
  have "list_all (\<lambda>c. normalizeCategory c = c) CATEGORIES"
    by code_simp
  then show "cat \<in> set CATEGORIES \<Longrightarrow> normalizeCategory cat = cat"
    by (simp add: list_all_iff)
qed


text \<open>
  C9, as the code has it. The item projected from a stored record has the stored category
  when that is present and not empty, and \<open>General\<close>, the first entry of the list, when it is
  absent or empty; so the category of an item is a member of the fixed list for every
  record whose stored category is absent, empty or already a member, and the items held
  after a snapshot of such records all have a category of the list. \<open>normalizeCategory\<close>
  returns a member of the list for every string: a member is returned as it is, and
  \<open>General\<close> is returned when nothing matches.
\<close>

theorem category_of_projection:
  "category (mapDoc d) =
     (case data_category d of None \<Rightarrow> ''General'' | Some c \<Rightarrow> if c = [] then ''General'' else c)
   \<and> (storedCategoryKnown d \<longrightarrow> category (mapDoc d) \<in> set CATEGORIES)
   \<and> (list_all storedCategoryKnown docs
      \<longrightarrow> (\<forall>i \<in> set (items (step getTime (StockSnapshot docs t) st)). category i \<in> set CATEGORIES))
   \<and> normalizeCategory cat \<in> set CATEGORIES
   \<and> (cat \<in> set CATEGORIES \<longrightarrow> normalizeCategory cat = cat)
   \<and> (\<not> (\<exists>c \<in> set CATEGORIES. toLowerCase c = toLowerCase (trim cat))
      \<longrightarrow> normalizeCategory cat = ''General'')"
proof -
  have "category (mapDoc d) =
     (case data_category d of None \<Rightarrow> ''General'' | Some c \<Rightarrow> if c = [] then ''General'' else c)"
    by (simp add: mapDoc_def stringOr_def first_category split: option.split)
  moreover have "\<forall>i \<in> set (items (step getTime (StockSnapshot docs t) st)). category i \<in> set CATEGORIES"
    if "list_all storedCategoryKnown docs"
    using that mapDoc_category_known
    by (auto simp add: step_items fetchItems_def set_js_sort list_all_iff)
  ultimately show ?thesis
    using mapDoc_category_known [of d] normalizeCategory_member [of cat]
      normalizeCategory_no_match [of cat] normalizeCategory_fixes [of cat]
    by blast
qed

text \<open>A record without category is given \<open>General\<close>; \<open>normalizeCategory\<close> finds "Quesos"
  whatever the case and the surrounding blanks, and gives \<open>General\<close> for an unknown text.\<close>

theorem category_of_projection_witness:
  "list_all storedCategoryKnown [(exampleDoc ''a'' ''Leche'' ''2025-01-10'')\<lparr>data_category := None\<rparr>]
   \<and> category (mapDoc ((exampleDoc ''a'' ''Leche'' ''2025-01-10'')\<lparr>data_category := None\<rparr>))
       = ''General''
   \<and> map category (items (step exampleGetTime
         (StockSnapshot [(exampleDoc ''a'' ''Leche'' ''2025-01-10'')\<lparr>data_category := None\<rparr>]
            exampleNow) initialState)) = [''General'']
   \<and> normalizeCategory ''  QUESOS '' = ''Quesos''
   \<and> normalizeCategory ''Calzado'' = ''General''
   \<and> normalizeCategory ''Calzado'' \<in> set CATEGORIES"
proof -
  have n1: "normalizeCategory ''  QUESOS '' = ''Quesos''"
    by code_simp
  have n2: "normalizeCategory ''Calzado'' = ''General''"
    by code_simp
  have i: "map category (items (step exampleGetTime
         (StockSnapshot [(exampleDoc ''a'' ''Leche'' ''2025-01-10'')\<lparr>data_category := None\<rparr>]
            exampleNow) initialState)) = [''General'']"
    by (simp add: step_items fetchItems_def js_sort_def mapDoc_def stringOr_def exampleDoc_def
          first_category)
  show ?thesis
    using n1 n2 i category_of_projection
      [where d = "(exampleDoc ''a'' ''Leche'' ''2025-01-10'')\<lparr>data_category := None\<rparr>"
         and docs = "[(exampleDoc ''a'' ''Leche'' ''2025-01-10'')\<lparr>data_category := None\<rparr>]"
         and cat = "''Calzado''" and t = exampleNow and st = initialState
         and getTime = exampleGetTime]
    by (simp add: storedCategoryKnown_def exampleDoc_def)
qed

text \<open>A record whose stored category is outside the list keeps it in the projection.\<close>

theorem category_of_projection_counterexample:
  "category (mapDoc ((exampleDoc ''d1'' ''Botas'' ''2025-01-10'')\<lparr>data_category := Some ''Calzado''\<rparr>))
     = ''Calzado''
   \<and> map category (items (step exampleGetTime
         (StockSnapshot [(exampleDoc ''d1'' ''Botas'' ''2025-01-10'')\<lparr>data_category := Some ''Calzado''\<rparr>]
            exampleNow) initialState)) = [''Calzado'']
   \<and> ''Calzado'' \<notin> set CATEGORIES"
  by (simp add: step_items fetchItems_def js_sort_def mapDoc_def stringOr_def exampleDoc_def
        CATEGORIES_def)

section \<open>Verified properties: the alarm modal\<close>

lemma step_loading:
  "loading (step getTime e st) =
     (case e of StockSnapshot docs currentTime \<Rightarrow> False | StockSnapshotError \<Rightarrow> False
      | SetLoading b \<Rightarrow> b | HandleClose \<Rightarrow> loading st)"
  by (simp add: step_def urgentEffect_other_fields Let_def split: event.split)

lemma step_urgentItems:
  "urgentItems (step getTime e st) =
     (case e of
        StockSnapshot docs currentTime \<Rightarrow> computeUrgentItems getTime currentTime (fetchItems getTime docs)
      | _ \<Rightarrow> urgentItems st)"
  by (simp add: step_def urgentEffect_other_fields Let_def split: event.split)

lemma step_showUrgentModal:
  "showUrgentModal (step getTime e st) =
     (e \<noteq> HandleClose \<and>
      (showUrgentModal st
       \<or> (length (urgentItems (step getTime e st)) \<noteq> length (urgentItems st)
            \<or> loading (step getTime e st) \<noteq> loading st)
          \<and> urgentItems (step getTime e st) \<noteq> [] \<and> \<not> loading (step getTime e st)))"
  by (cases e) (auto simp add: step_def urgentEffect_def Let_def)

lemmas example_eval =
  run_def step_showUrgentModal step_loading step_urgentItems
  fetchItems_def js_sort_def sortCompare_def compareExpiration_def mapDoc_def
  computeUrgentItems_def isUrgent_def checkExpirationStatus_def
  Math_ceil_div_def intLeNumber_def parseIntValue_def numberOr_def stringOr_def
  DEFAULT_ALARM_DAYS_def
  initialState_def Let_def exampleGetTime_def exampleNow_def exampleDoc_def

text \<open>
  C2, as the code has it. After an event the modal flag is true exactly when the event is
  not the acknowledgment and either the flag was true before, or the number of urgent
  items or the loading flag changed and there are now urgent items and loading is over.
  So the flag becomes false only on acknowledgment; a snapshot that takes the urgent list
  from empty to non-empty sets it, and so does the first snapshot that ends loading with
  urgent items; a snapshot that changes the urgent items but not their number, after
  loading, leaves an acknowledged flag false; and a snapshot that changes their number
  and leaves some sets the flag again. The urgent list after a snapshot is the list of
  the fetched items whose status is Expired or Warning.
\<close>

theorem showUrgentModal_lifecycle:
  "showUrgentModal (step getTime e st) =
     (e \<noteq> HandleClose \<and>
      (showUrgentModal st
       \<or> (length (urgentItems (step getTime e st)) \<noteq> length (urgentItems st)
            \<or> loading (step getTime e st) \<noteq> loading st)
          \<and> urgentItems (step getTime e st) \<noteq> [] \<and> \<not> loading (step getTime e st)))
   \<and> urgentItems (step getTime (StockSnapshot docs t) st)
       = filter (isUrgent getTime t) (fetchItems getTime docs)
   \<and> (showUrgentModal st \<and> e \<noteq> HandleClose \<longrightarrow> showUrgentModal (step getTime e st))
   \<and> (urgentItems st = [] \<and> urgentItems (step getTime (StockSnapshot docs t) st) \<noteq> []
      \<longrightarrow> showUrgentModal (step getTime (StockSnapshot docs t) st))
   \<and> (loading st \<and> urgentItems (step getTime (StockSnapshot docs t) st) \<noteq> []
      \<longrightarrow> showUrgentModal (step getTime (StockSnapshot docs t) st))
   \<and> (\<not> showUrgentModal st \<and> \<not> loading st
        \<and> length (urgentItems (step getTime (StockSnapshot docs t) st)) = length (urgentItems st)
      \<longrightarrow> \<not> showUrgentModal (step getTime (StockSnapshot docs t) st))
   \<and> (\<not> loading st
        \<and> length (urgentItems (step getTime (StockSnapshot docs t) st)) \<noteq> length (urgentItems st)
        \<and> urgentItems (step getTime (StockSnapshot docs t) st) \<noteq> []
      \<longrightarrow> showUrgentModal (step getTime (StockSnapshot docs t) st))"
proof -
  have l: "\<not> loading (step getTime (StockSnapshot docs t) st)"
    by (simp add: step_loading)
  have u: "urgentItems (step getTime (StockSnapshot docs t) st)
       = filter (isUrgent getTime t) (fetchItems getTime docs)"
    by (simp add: step_urgentItems computeUrgentItems_def)
  have s: "showUrgentModal (step getTime (StockSnapshot docs t) st) =
      (showUrgentModal st
       \<or> (length (urgentItems (step getTime (StockSnapshot docs t) st)) \<noteq> length (urgentItems st)
            \<or> loading st)
          \<and> urgentItems (step getTime (StockSnapshot docs t) st) \<noteq> [])"
    using l by (subst step_showUrgentModal) auto
  have a: "urgentItems st = [] \<and> urgentItems (step getTime (StockSnapshot docs t) st) \<noteq> []
      \<longrightarrow> showUrgentModal (step getTime (StockSnapshot docs t) st)"
    unfolding s by auto
  have b: "loading st \<and> urgentItems (step getTime (StockSnapshot docs t) st) \<noteq> []
      \<longrightarrow> showUrgentModal (step getTime (StockSnapshot docs t) st)"
    unfolding s by auto
  have c: "\<not> showUrgentModal st \<and> \<not> loading st
        \<and> length (urgentItems (step getTime (StockSnapshot docs t) st)) = length (urgentItems st)
      \<longrightarrow> \<not> showUrgentModal (step getTime (StockSnapshot docs t) st)"
    unfolding s by auto
  have d: "\<not> loading st
        \<and> length (urgentItems (step getTime (StockSnapshot docs t) st)) \<noteq> length (urgentItems st)
        \<and> urgentItems (step getTime (StockSnapshot docs t) st) \<noteq> []
      \<longrightarrow> showUrgentModal (step getTime (StockSnapshot docs t) st)"
    unfolding s by auto
  have k: "showUrgentModal st \<and> e \<noteq> HandleClose \<longrightarrow> showUrgentModal (step getTime e st)"
    by (subst step_showUrgentModal) auto
  show ?thesis
    using step_showUrgentModal [of getTime e st] u k a b c d by (intro conjI)
qed

text \<open>
  After the alert for one Warning item is acknowledged, a snapshot holding another single
  Warning item instead leaves the flag false; and after the urgent list was emptied, a
  new Warning item sets the flag.
\<close>

theorem showUrgentModal_lifecycle_witness:
  "\<not> showUrgentModal (run exampleGetTime
        [StockSnapshot [exampleDoc ''a'' ''Leche'' ''2025-01-10''] exampleNow, HandleClose]
        initialState)
   \<and> \<not> loading (run exampleGetTime
        [StockSnapshot [exampleDoc ''a'' ''Leche'' ''2025-01-10''] exampleNow, HandleClose]
        initialState)
   \<and> length (urgentItems (step exampleGetTime
        (StockSnapshot [exampleDoc ''c'' ''Yogur'' ''2025-01-09''] exampleNow)
        (run exampleGetTime
          [StockSnapshot [exampleDoc ''a'' ''Leche'' ''2025-01-10''] exampleNow, HandleClose]
          initialState)))
       = length (urgentItems (run exampleGetTime
          [StockSnapshot [exampleDoc ''a'' ''Leche'' ''2025-01-10''] exampleNow, HandleClose]
          initialState))
   \<and> \<not> showUrgentModal (step exampleGetTime
        (StockSnapshot [exampleDoc ''c'' ''Yogur'' ''2025-01-09''] exampleNow)
        (run exampleGetTime
          [StockSnapshot [exampleDoc ''a'' ''Leche'' ''2025-01-10''] exampleNow, HandleClose]
          initialState))
   \<and> showUrgentModal (run exampleGetTime
        [StockSnapshot [exampleDoc ''a'' ''Leche'' ''2025-01-10''] exampleNow, HandleClose,
         StockSnapshot [] exampleNow,
         StockSnapshot [exampleDoc ''b'' ''Queso'' ''2025-01-08''] exampleNow]
        initialState)"
  using showUrgentModal_lifecycle
    [where getTime = exampleGetTime and t = exampleNow
       and docs = "[exampleDoc ''c'' ''Yogur'' ''2025-01-09'']"
       and e = "StockSnapshot [exampleDoc ''c'' ''Yogur'' ''2025-01-09''] exampleNow"
       and st = "run exampleGetTime
          [StockSnapshot [exampleDoc ''a'' ''Leche'' ''2025-01-10''] exampleNow, HandleClose]
          initialState"]
  by (simp add: example_eval)

text \<open>
  One Warning item raises the flag; the user acknowledges it; a snapshot then delivers the
  same item and a second, unrelated Warning item. The urgent list goes from one item to
  two, and the flag is true again.
\<close>

theorem showUrgentModal_lifecycle_counterexample:
  "showUrgentModal (run exampleGetTime
        [StockSnapshot [exampleDoc ''a'' ''Leche'' ''2025-01-10''] exampleNow] initialState)
   \<and> \<not> showUrgentModal (run exampleGetTime
        [StockSnapshot [exampleDoc ''a'' ''Leche'' ''2025-01-10''] exampleNow, HandleClose]
        initialState)
   \<and> map item_id (urgentItems (run exampleGetTime
        [StockSnapshot [exampleDoc ''a'' ''Leche'' ''2025-01-10''] exampleNow, HandleClose]
        initialState)) = [''a'']
   \<and> map item_id (urgentItems (run exampleGetTime
        [StockSnapshot [exampleDoc ''a'' ''Leche'' ''2025-01-10''] exampleNow, HandleClose,
         StockSnapshot [exampleDoc ''a'' ''Leche'' ''2025-01-10'',
                        exampleDoc ''b'' ''Queso'' ''2025-01-08''] exampleNow]
        initialState)) = [''b'', ''a'']
   \<and> showUrgentModal (run exampleGetTime
        [StockSnapshot [exampleDoc ''a'' ''Leche'' ''2025-01-10''] exampleNow, HandleClose,
         StockSnapshot [exampleDoc ''a'' ''Leche'' ''2025-01-10'',
                        exampleDoc ''b'' ''Queso'' ''2025-01-08''] exampleNow]
        initialState)"
  by (simp add: example_eval)

section \<open>Verified properties: unified names\<close>

lemma uniqueItemNames_distinct: "distinct (uniqueItemNames cmp its cn)"
  by (simp add: uniqueItemNames_def Let_def distinct_js_sort distinct_Set_of)

lemma uniqueItemNames_set:
  "set (uniqueItemNames cmp its cn) = (\<lambda>i. trim (name i)) ` set its \<union> set cn"
  by (simp add: uniqueItemNames_def Let_def set_js_sort set_Set_of)

lemma uniqueItemNames_sorted:
  assumes "\<forall>a b. cmp a b \<le> 0 \<or> cmp b a \<le> 0"
    and "\<forall>a b c. cmp a b \<le> 0 \<and> cmp b c \<le> 0 \<longrightarrow> cmp a c \<le> 0"
  shows "sorted_wrt (\<lambda>a b. cmp a b \<le> 0) (uniqueItemNames cmp its cn)"
proof -
  have "sorted_wrt (\<lambda>a b. sortCompare (\<lambda>a b. Some (cmp a b)) a b \<le> 0)
          (js_sort (\<lambda>a b. Some (cmp a b)) (Set_of (map (\<lambda>i. trim (name i)) its @ cn)))"
  proof (rule sorted_wrt_js_sort [of UNIV])
    fix a b :: string
    have "cmp a b \<le> 0 \<or> cmp b a \<le> 0"
      using assms(1) by blast
    then show "sortCompare (\<lambda>a b. Some (cmp a b)) a b \<le> 0 \<or> sortCompare (\<lambda>a b. Some (cmp a b)) b a \<le> 0"
      by (simp add: sortCompare_def)
  next
    fix a b c :: string
    assume "sortCompare (\<lambda>a b. Some (cmp a b)) a b \<le> 0" "sortCompare (\<lambda>a b. Some (cmp a b)) b c \<le> 0"
    then have "cmp a b \<le> 0 \<and> cmp b c \<le> 0"
      by (simp add: sortCompare_def)
    then have "cmp a c \<le> 0"
      using assms(2) by blast
    then show "sortCompare (\<lambda>a b. Some (cmp a b)) a c \<le> 0"
      by (simp add: sortCompare_def)
  qed simp
  then show ?thesis
    by (simp add: uniqueItemNames_def Let_def sortCompare_def)
qed

lemma Set_of_append_same: "Set_of (xs @ xs) = Set_of xs"
proof -
  have "fold Set_add xs acc = acc" if "set xs \<subseteq> set acc" for acc :: "'a list"
    using that by (induction xs arbitrary: acc) (auto simp: Set_add_def)
  then have "fold Set_add xs (fold Set_add xs []) = fold Set_add xs []"
    by (simp add: set_fold_Set_add)
  then show ?thesis by (simp add: Set_of_def)
qed

lemma uniqueItemNames_same:
  assumes "\<forall>i \<in> set its. trim (name i) = name i"
  shows "uniqueItemNames cmp its (map name its)
           = js_sort (\<lambda>a b. Some (cmp a b)) (Set_of (map name its))"
proof -
  have m: "map (\<lambda>i. trim (name i)) its = map name its"
    using assms by simp
  show ?thesis
    unfolding uniqueItemNames_def Let_def m Set_of_append_same ..
qed

lemma uniqueItemNamesOnHeap_value:
  assumes "itemsRef < length h" and "namesRef < length h"
    and "h ! itemsRef = ItemArray its" and "h ! namesRef = StringArray cn"
  shows "uniqueItemNamesOnHeap cmp h itemsRef namesRef =
           Some ((h @ [StringArray (map (\<lambda>i. trim (name i)) its),
                       StringArray (map (\<lambda>i. trim (name i)) its @ cn),
                       StringArray (uniqueItemNames cmp its cn)]),
                 length h + 2)"
  using assms
  by (simp add: uniqueItemNamesOnHeap_def alloc_def Let_def uniqueItemNames_def list_update_append)

lemma uniqueItemNamesOnHeap_frame:
  assumes "uniqueItemNamesOnHeap cmp h itemsRef namesRef = Some (h', r)"
  shows "length h \<le> r \<and> (\<forall>a < length h. h' ! a = h ! a)
       \<and> (\<exists>its cn. h ! itemsRef = ItemArray its \<and> h ! namesRef = StringArray cn
           \<and> h' ! r = StringArray (uniqueItemNames cmp its cn))"
proof -
  have refs: "itemsRef < length h" "namesRef < length h"
    using assms by (simp_all add: uniqueItemNamesOnHeap_def split: if_splits)
  obtain its where i: "h ! itemsRef = ItemArray its"
    using assms refs by (cases "h ! itemsRef") (simp_all add: uniqueItemNamesOnHeap_def)
  obtain cn where n: "h ! namesRef = StringArray cn"
    using assms refs i by (cases "h ! namesRef") (simp_all add: uniqueItemNamesOnHeap_def)
  have "h' = h @ [StringArray (map (\<lambda>i. trim (name i)) its),
                       StringArray (map (\<lambda>i. trim (name i)) its @ cn),
                       StringArray (uniqueItemNames cmp its cn)]" and "r = length h + 2"
    using assms uniqueItemNamesOnHeap_value [OF refs i n, of cmp] by simp_all
  then show ?thesis
    using i n by (simp add: nth_append)
qed

text \<open>
  C8, as the code has it. For all items and common names the unified list has no
  duplicate, holds exactly the trimmed item names and the common names (compared as they
  are, case and all), and is in ascending order of the collation whenever the collation is
  a total preorder; for no items and no names it is empty. When the item names carry no
  outer white space, unifying them with themselves gives the sorted deduplication of the
  names. On the heap, a call returns a newly allocated array holding that list and leaves
  every array that existed before the call as it was, its two inputs among them.
\<close>

theorem uniqueItemNames_unifies:
  "distinct (uniqueItemNames cmp its cn)
   \<and> set (uniqueItemNames cmp its cn) = (\<lambda>i. trim (name i)) ` set its \<union> set cn
   \<and> ((\<forall>a b. cmp a b \<le> 0 \<or> cmp b a \<le> 0)
        \<and> (\<forall>a b c. cmp a b \<le> 0 \<and> cmp b c \<le> 0 \<longrightarrow> cmp a c \<le> 0)
      \<longrightarrow> sorted_wrt (\<lambda>a b. cmp a b \<le> 0) (uniqueItemNames cmp its cn))
   \<and> uniqueItemNames cmp [] [] = []
   \<and> ((\<forall>i \<in> set its. trim (name i) = name i)
      \<longrightarrow> uniqueItemNames cmp its (map name its)
            = js_sort (\<lambda>a b. Some (cmp a b)) (Set_of (map name its)))
   \<and> (uniqueItemNamesOnHeap cmp h itemsRef namesRef = Some (h', r)
      \<longrightarrow> length h \<le> r \<and> (\<forall>a < length h. h' ! a = h ! a)
        \<and> (\<exists>its cn. h ! itemsRef = ItemArray its \<and> h ! namesRef = StringArray cn
              \<and> h' ! r = StringArray (uniqueItemNames cmp its cn)))
   \<and> (itemsRef < length h \<and> namesRef < length h
        \<and> h ! itemsRef = ItemArray its \<and> h ! namesRef = StringArray cn
      \<longrightarrow> (\<exists>h' r. uniqueItemNamesOnHeap cmp h itemsRef namesRef = Some (h', r)))"
proof -
  have e: "uniqueItemNames cmp [] [] = []"
    by (simp add: uniqueItemNames_def Set_of_def js_sort_def)
  have r: "\<exists>h' r. uniqueItemNamesOnHeap cmp h itemsRef namesRef = Some (h', r)"
    if "itemsRef < length h \<and> namesRef < length h
        \<and> h ! itemsRef = ItemArray its \<and> h ! namesRef = StringArray cn"
    using that uniqueItemNamesOnHeap_value [of itemsRef h namesRef its cn cmp] by simp
  show ?thesis
    using uniqueItemNames_distinct [of cmp its cn] uniqueItemNames_set [of cmp its cn]
      uniqueItemNames_sorted [of cmp its cn] e uniqueItemNames_same [of its cmp]
      uniqueItemNamesOnHeap_frame [of cmp h itemsRef namesRef h' r] r
    by (intro conjI impI) blast+
qed

text \<open>Two items, one with blanks around its name, and two common names.\<close>

theorem uniqueItemNames_unifies_witness:
  "uniqueItemNames exampleCompare
      [exampleItem ''a'' ''Milk'', exampleItem ''b'' '' Cheese ''] [''Yogur'', ''Milk'']
     = [''Cheese'', ''Milk'', ''Yogur'']
   \<and> sorted_wrt (\<lambda>a b. exampleCompare a b \<le> 0)
       (uniqueItemNames exampleCompare
          [exampleItem ''a'' ''Milk'', exampleItem ''b'' '' Cheese ''] [''Yogur'', ''Milk''])
   \<and> uniqueItemNamesOnHeap exampleCompare
       [ItemArray [exampleItem ''a'' ''Milk'', exampleItem ''b'' '' Cheese ''],
        StringArray [''Yogur'', ''Milk'']] 0 1
     = Some ([ItemArray [exampleItem ''a'' ''Milk'', exampleItem ''b'' '' Cheese ''],
              StringArray [''Yogur'', ''Milk''],
              StringArray [''Milk'', ''Cheese''],
              StringArray [''Milk'', ''Cheese'', ''Yogur'', ''Milk''],
              StringArray [''Cheese'', ''Milk'', ''Yogur'']], 4)"
proof -
  have tot: "\<forall>a b. exampleCompare a b \<le> 0 \<or> exampleCompare b a \<le> 0"
    by (simp add: exampleCompare_def)
  have tr: "\<forall>a b c. exampleCompare a b \<le> 0 \<and> exampleCompare b c \<le> 0
              \<longrightarrow> exampleCompare a c \<le> 0"
    by (auto simp add: exampleCompare_def split: if_splits)
  have v: "uniqueItemNames exampleCompare
      [exampleItem ''a'' ''Milk'', exampleItem ''b'' '' Cheese ''] [''Yogur'', ''Milk'']
     = [''Cheese'', ''Milk'', ''Yogur'']"
    by (simp add: uniqueItemNames_def Set_of_def Set_add_def js_sort_def sortCompare_def
          exampleCompare_def trim_def isWhiteSpace_def exampleItem_def Let_def)
  have hp: "uniqueItemNamesOnHeap exampleCompare
       [ItemArray [exampleItem ''a'' ''Milk'', exampleItem ''b'' '' Cheese ''],
        StringArray [''Yogur'', ''Milk'']] 0 1
     = Some ([ItemArray [exampleItem ''a'' ''Milk'', exampleItem ''b'' '' Cheese ''],
              StringArray [''Yogur'', ''Milk''],
              StringArray [''Milk'', ''Cheese''],
              StringArray [''Milk'', ''Cheese'', ''Yogur'', ''Milk''],
              StringArray [''Cheese'', ''Milk'', ''Yogur'']], 4)"
    by (simp add: uniqueItemNamesOnHeap_def alloc_def Set_of_def Set_add_def js_sort_def
          sortCompare_def exampleCompare_def trim_def isWhiteSpace_def exampleItem_def Let_def)
  have "sorted_wrt (\<lambda>a b. exampleCompare a b \<le> 0)
       (uniqueItemNames exampleCompare
          [exampleItem ''a'' ''Milk'', exampleItem ''b'' '' Cheese ''] [''Yogur'', ''Milk''])"
    using uniqueItemNames_unifies
      [where cmp = exampleCompare
         and its = "[exampleItem ''a'' ''Milk'', exampleItem ''b'' '' Cheese '']"
         and cn = "[''Yogur'', ''Milk'']",
       THEN conjunct2, THEN conjunct2, THEN conjunct1, THEN mp, OF conjI, OF tot tr] .
  then show ?thesis
    using v hp by (intro conjI)
qed

text \<open>
  An item named " Milk" and the common name " Milk": only the item name is trimmed, so
  the unified list has two entries, while the sorted deduplication of the one name has one.
\<close>

theorem uniqueItemNames_unifies_counterexample:
  "uniqueItemNames exampleCompare [exampleItem ''a'' '' Milk''] ['' Milk'']
     = ['' Milk'', ''Milk'']
   \<and> js_sort (\<lambda>a b. Some (exampleCompare a b)) (Set_of ['' Milk'']) = ['' Milk'']"
  by (simp add: uniqueItemNames_def Set_of_def Set_add_def js_sort_def sortCompare_def
        exampleCompare_def trim_def isWhiteSpace_def exampleItem_def Let_def)

end
